theory Spec2Isabelle
  imports Main "HOL-Library.Word"
begin

section \<open>JavaScript values shared by both modules\<close>

type_synonym byte = "8 word"
type_synonym bytes = "byte list"

text \<open>
  Exceptions are values. \<open>Error m\<close> is \<^verbatim>\<open>new Error(m)\<close>; \<open>ReferenceError x\<close> is what
  evaluating an identifier \<open>x\<close> with no binding raises; \<open>TypeError m\<close> is what calling a
  missing method or reading a property of \<^verbatim>\<open>null\<close> raises.
\<close>

datatype error = Error string | ReferenceError string | TypeError string

text \<open>String conversion of an exception, as \<^verbatim>\<open>"..." + ex\<close> performs it.\<close>

definition name_and_message :: "string \<Rightarrow> string \<Rightarrow> string" where
  "name_and_message n m = (if m = [] then n else n @ '': '' @ m)"

fun error_toString :: "error \<Rightarrow> string" where
  "error_toString (Error m) = name_and_message ''Error'' m"
| "error_toString (ReferenceError x) =
     name_and_message ''ReferenceError'' (x @ '' is not defined'')"
| "error_toString (TypeError m) = name_and_message ''TypeError'' m"

section \<open>publisher-id.js\<close>

subsection \<open>Collaborators the module requires\<close>

text \<open>
  \<^verbatim>\<open>NDNProtocolDTags\<close> comes from \<^verbatim>\<open>./util/ndn-protoco-id-tags.js\<close>, which is not among the
  sources. The four numbers the module reads from it are parameters of the model.
\<close>

record NDNProtocolDTags =
  PublisherPublicKeyDigest :: int
  PublisherCertificateDigest :: int
  PublisherIssuerKeyDigest :: int
  PublisherIssuerCertificateDigest :: int

text \<open>
  The decoder and the encoder are objects of the surrounding library, passed in by the
  caller. A decoder is its two methods over a state \<open>'s\<close> of its own (the input and the
  cursor); each call returns the state it leaves behind, so a decoder whose lookahead moves
  the cursor is covered as well as one that restores it. \<^verbatim>\<open>peekDTag\<close> answers yes or no;
  \<^verbatim>\<open>readBinaryDTagElement\<close> returns the payload or \<^verbatim>\<open>null\<close> (\<open>None\<close>), or raises.
\<close>

record 's BinaryXMLDecoder =
  peekDTag :: "int \<Rightarrow> 's \<Rightarrow> bool \<times> 's"
  readBinaryDTagElement :: "int \<Rightarrow> 's \<Rightarrow> (error + bytes option) \<times> 's"

record 'e BinaryXMLEncoder =
  writeDTagElement :: "int \<Rightarrow> bytes option \<Rightarrow> 'e \<Rightarrow> 'e"

subsection \<open>PublisherType and PublisherID\<close>

record PublisherType =
  KEY :: int
  CERTIFICATE :: int
  ISSUER_KEY :: int
  ISSUER_CERTIFICATE :: int
  Tag :: int

definition PublisherType_new :: "NDNProtocolDTags \<Rightarrow> int \<Rightarrow> PublisherType" where
  "PublisherType_new dtags tag =
     \<lparr> KEY = PublisherPublicKeyDigest dtags,
       CERTIFICATE = PublisherCertificateDigest dtags,
       ISSUER_KEY = PublisherIssuerKeyDigest dtags,
       ISSUER_CERTIFICATE = PublisherIssuerCertificateDigest dtags,
       Tag = tag \<rparr>"

text \<open>Both fields of a fresh \<open>PublisherID\<close> are \<^verbatim>\<open>null\<close>, written \<open>None\<close>.\<close>

record PublisherID =
  PUBLISHER_ID_DIGEST_ALGORITHM :: string
  PUBLISHER_ID_LEN :: nat
  publisherID :: "bytes option"
  publisherType :: "PublisherType option"

definition PublisherID_new :: PublisherID where
  "PublisherID_new =
     \<lparr> PUBLISHER_ID_DIGEST_ALGORITHM = ''SHA-256'',
       PUBLISHER_ID_LEN = 256 div 8,
       publisherID = None,
       publisherType = None \<rparr>"

subsection \<open>Decoding\<close>

definition peekAndGetNextDTag :: "NDNProtocolDTags \<Rightarrow> 's BinaryXMLDecoder \<Rightarrow> 's \<Rightarrow> int \<times> 's" where
  "peekAndGetNextDTag dtags decoder s0 =
     (let (m1, s1) = peekDTag decoder (PublisherPublicKeyDigest dtags) s0 in
      if m1 then (PublisherPublicKeyDigest dtags, s1)
      else
        let (m2, s2) = peekDTag decoder (PublisherCertificateDigest dtags) s1 in
        if m2 then (PublisherCertificateDigest dtags, s2)
        else
          let (m3, s3) = peekDTag decoder (PublisherIssuerKeyDigest dtags) s2 in
          if m3 then (PublisherIssuerKeyDigest dtags, s3)
          else
            let (m4, s4) = peekDTag decoder (PublisherIssuerCertificateDigest dtags) s3 in
            if m4 then (PublisherIssuerCertificateDigest dtags, s4)
            else (- 1, s4))"

definition peek :: "NDNProtocolDTags \<Rightarrow> 's BinaryXMLDecoder \<Rightarrow> 's \<Rightarrow> bool \<times> 's" where
  "peek dtags decoder s0 =
     (let (nextTag, s1) = peekAndGetNextDTag dtags decoder s0 in (nextTag \<ge> 0, s1))"

text \<open>
  \<open>from_ndnb\<close> returns what it threw, if anything, the object it was called on as the call
  leaves it, and the decoder's state. \<^verbatim>\<open>ContentDecodingException\<close> is neither declared nor
  required in publisher-id.js, so evaluating \<^verbatim>\<open>new ContentDecodingException(...)\<close> raises a
  \<open>ReferenceError\<close> for that name.
\<close>

definition from_ndnb ::
  "NDNProtocolDTags \<Rightarrow> 's BinaryXMLDecoder \<Rightarrow> PublisherID \<Rightarrow> 's \<Rightarrow> (error + unit) \<times> PublisherID \<times> 's" where
  "from_ndnb dtags decoder this s0 =
     (let (nextTag, s1) = peekAndGetNextDTag dtags decoder s0;
          this1 = this\<lparr>publisherType := Some (PublisherType_new dtags nextTag)\<rparr>
      in
        if nextTag < 0 then
          (Inl (Error ''Invalid publisher ID, got unexpected type''), this1, s1)
        else
          (case readBinaryDTagElement decoder nextTag s1 of
             (Inl ex, s2) \<Rightarrow> (Inl ex, this1, s2)
           | (Inr payload, s2) \<Rightarrow>
               (let this2 = this1\<lparr>publisherID := payload\<rparr> in
                if payload = None then (Inl (ReferenceError ''ContentDecodingException''), this2, s2)
                else (Inr (), this2, s2))))"

subsection \<open>Encoding\<close>

definition getElementLabel :: "PublisherID \<Rightarrow> error + int" where
  "getElementLabel this =
     (case publisherType this of
        None \<Rightarrow> Inl (TypeError ''Cannot read property Tag of null'')
      | Some t \<Rightarrow> Inr (Tag t))"

text \<open>
  The body of \<open>validate\<close> is \<^verbatim>\<open>return null != id() && null != type();\<close>. Neither \<^verbatim>\<open>id\<close> nor
  \<^verbatim>\<open>type\<close> is declared, required or assigned anywhere in the module, and neither is a
  standard global, so evaluating the left operand raises a \<open>ReferenceError\<close> for \<^verbatim>\<open>id\<close>
  before any field of the object is read.
\<close>

definition validate :: "PublisherID \<Rightarrow> error + bool" where
  "validate this = Inl (ReferenceError ''id'')"

text \<open>
  When \<open>validate\<close> returns \<^verbatim>\<open>false\<close> the message of the error to throw is built first, and
  it calls \<^verbatim>\<open>this.getClass()\<close>, a method the prototype does not have.
\<close>

definition to_ndnb :: "'e BinaryXMLEncoder \<Rightarrow> PublisherID \<Rightarrow> 'e \<Rightarrow> (error + unit) \<times> 'e" where
  "to_ndnb encoder this e =
     (case validate this of
        Inl ex \<Rightarrow> (Inl ex, e)
      | Inr valid \<Rightarrow>
          if \<not> valid then (Inl (TypeError ''this.getClass is not a function''), e)
          else
            (case getElementLabel this of
               Inl ex \<Rightarrow> (Inl ex, e)
             | Inr label \<Rightarrow> (Inr (), writeDTagElement encoder label (publisherID this) e)))"

subsection \<open>Observing the calls made on a decoder\<close>

text \<open>
  \<open>spy decoder\<close> behaves as \<open>decoder\<close> does and appends every method call it receives to a
  list kept beside the decoder's state, so that which calls a function makes, and in which
  order, is part of its result.
\<close>

datatype decoder_call = PeekDTag int | ReadBinaryDTagElement int

definition spy :: "'s BinaryXMLDecoder \<Rightarrow> ('s \<times> decoder_call list) BinaryXMLDecoder" where
  "spy decoder =
     \<lparr> peekDTag = (\<lambda>tag (s, calls).
         case peekDTag decoder tag s of (m, s') \<Rightarrow> (m, (s', calls @ [PeekDTag tag]))),
       readBinaryDTagElement = (\<lambda>tag (s, calls).
         case readBinaryDTagElement decoder tag s of
           (r, s') \<Rightarrow> (r, (s', calls @ [ReadBinaryDTagElement tag]))) \<rparr>"

text \<open>
  The specification of the lookahead, in its own words: the tags are probed in the fixed
  order \<open>KEY, CERTIFICATE, ISSUER_KEY, ISSUER_CERTIFICATE\<close>, the first match wins, and the
  result is the sentinel \<open>-1\<close> when none matches. \<open>first_match\<close> returns the result, the
  tags it probed and the decoder's state.
\<close>

definition probe_order :: "NDNProtocolDTags \<Rightarrow> int list" where
  "probe_order dtags =
     [PublisherPublicKeyDigest dtags, PublisherCertificateDigest dtags,
      PublisherIssuerKeyDigest dtags, PublisherIssuerCertificateDigest dtags]"

fun first_match :: "'s BinaryXMLDecoder \<Rightarrow> int list \<Rightarrow> 's \<Rightarrow> int \<times> int list \<times> 's" where
  "first_match decoder [] s = (- 1, [], s)"
| "first_match decoder (tag # rest) s =
     (case peekDTag decoder tag s of
        (True, s') \<Rightarrow> (tag, [tag], s')
      | (False, s') \<Rightarrow>
          (case first_match decoder rest s' of (r, probed, s'') \<Rightarrow> (r, tag # probed, s'')))"

subsection \<open>Test doubles\<close>

text \<open>
  A registry with four distinct tags; a decoder over a list of (tag, payload) elements whose
  lookahead compares the tag of the first element; a decoder crafted so that its lookahead
  answers yes for every tag in its state; an encoder that appends elements to a list.
\<close>

definition example_dtags :: NDNProtocolDTags where
  "example_dtags =
     \<lparr> PublisherPublicKeyDigest = 59, PublisherCertificateDigest = 60,
       PublisherIssuerKeyDigest = 61, PublisherIssuerCertificateDigest = 62 \<rparr>"

definition element_decoder :: "(int \<times> bytes) list BinaryXMLDecoder" where
  "element_decoder =
     \<lparr> peekDTag = (\<lambda>tag s. (case s of [] \<Rightarrow> False | (t, _) # _ \<Rightarrow> t = tag, s)),
       readBinaryDTagElement = (\<lambda>tag s.
         case s of
           [] \<Rightarrow> (Inr None, s)
         | (t, payload) # rest \<Rightarrow> if t = tag then (Inr (Some payload), rest) else (Inr None, s)) \<rparr>"

definition crafted_decoder :: "int list BinaryXMLDecoder" where
  "crafted_decoder =
     \<lparr> peekDTag = (\<lambda>tag s. (tag \<in> set s, s)),
       readBinaryDTagElement = (\<lambda>tag s. (Inr None, s)) \<rparr>"

definition list_encoder :: "(int \<times> bytes option) list BinaryXMLEncoder" where
  "list_encoder = \<lparr> writeDTagElement = (\<lambda>tag payload e. e @ [(tag, payload)]) \<rparr>"

definition example_digest :: bytes where
  "example_digest = replicate 32 0xAB"

text \<open>A value as decoding a \<open>KEY\<close> element with that digest leaves it.\<close>

definition decoded_key_id :: PublisherID where
  "decoded_key_id =
     PublisherID_new\<lparr>publisherID := Some example_digest,
                     publisherType := Some (PublisherType_new example_dtags 59)\<rparr>"

section \<open>security/verification-helpers.js\<close>

subsection \<open>Arguments\<close>

text \<open>
  A buffer or signature argument is a \<^verbatim>\<open>Buffer\<close> or a \<^verbatim>\<open>Blob\<close>; a \<^verbatim>\<open>Blob\<close> holds a
  \<^verbatim>\<open>Buffer\<close> or \<^verbatim>\<open>null\<close>, which \<^verbatim>\<open>buf()\<close> returns.
\<close>

datatype buffer_arg = Buffer bytes | Blob "bytes option"

fun buf :: "buffer_arg \<Rightarrow> bytes option" where
  "buf (Buffer b) = Some b"
| "buf (Blob b) = b"

text \<open>
  Modelled from the spec: the public key capability, "constructible from DER bytes; exposes
  keyType() (RSA | ECDSA | other) and keyDer() -> bytes". The class \<^verbatim>\<open>PublicKey\<close> of
  \<^verbatim>\<open>./certificate/public-key.js\<close> and the constants \<^verbatim>\<open>KeyType.RSA\<close> and \<^verbatim>\<open>KeyType.ECDSA\<close> of
  \<^verbatim>\<open>./security-types.js\<close> are not among the sources. A key object is what its two getters
  return; a key type that equals neither constant is \<open>OtherKeyType\<close>. \<open>getKeyDer\<close> is the
  content of the \<^verbatim>\<open>Buffer\<close> that \<^verbatim>\<open>getKeyDer().buf()\<close> returns, the DER bytes;
  \<open>getKeyDer_buffer\<close> is the content of that Buffer's \<^verbatim>\<open>.buffer\<close>, the whole \<^verbatim>\<open>ArrayBuffer\<close>
  behind it, which is the DER bytes when the Buffer owns its memory and holds other bytes
  around them when the Buffer is a view.
\<close>

datatype KeyType = RSA | ECDSA | OtherKeyType

record PublicKey =
  getKeyType :: KeyType
  getKeyDer :: bytes
  getKeyDer_buffer :: bytes

datatype key_arg = KeyObject PublicKey | KeyBytes buffer_arg

text \<open>
  The two optional arguments, \<^verbatim>\<open>digestAlgorithm\<close> (documented as a number) and \<^verbatim>\<open>useSync\<close>
  (documented as a boolean): omitted, a boolean or a number.
\<close>

datatype js_arg = Undefined | Boolean bool | Number int

fun truthy :: "js_arg \<Rightarrow> bool" where
  "truthy Undefined = False"
| "truthy (Boolean b) = b"
| "truthy (Number n) = (n \<noteq> 0)"

subsection \<open>The environment\<close>

text \<open>
  What the module calls and does not define. \<open>DigestAlgorithm_SHA256\<close> is the constant of
  \<^verbatim>\<open>./security-types.js\<close>; \<open>PublicKey_new\<close> is the constructor, which raises when the DER
  does not parse; \<open>UseSubtleCrypto\<close> is the capability test. \<open>subtle_importKey\<close> and
  \<open>subtle_verify\<close> are \<^verbatim>\<open>crypto.subtle\<close>: each returns a promise, given here by how it
  settles (\<open>Inl\<close> rejected, \<open>Inr\<close> fulfilled). \<open>createHash_digest\<close> is the value of
  \<^verbatim>\<open>Crypto.createHash('sha256').digest()\<close>, the hash of the empty input: a string or a
  buffer with the backend, the same at every call, and computed without raising.
  \<open>createVerify\<close>, \<open>update\<close> and \<open>verify\<close> are the synchronous verifier, each of which may
  raise; \<open>toString_base64\<close> is \<^verbatim>\<open>Buffer.toString('base64')\<close>.
\<close>

datatype digest_value = DigestString string | DigestBuffer bytes

datatype signature_arg = SignatureString string | SignatureBuffer "bytes option"

record ('k, 'v) environment =
  DigestAlgorithm_SHA256 :: int
  PublicKey_new :: "bytes option \<Rightarrow> error + PublicKey"
  UseSubtleCrypto :: bool
  subtle_importKey :: "bytes \<Rightarrow> error + 'k"
  subtle_verify :: "'k \<Rightarrow> bytes option \<Rightarrow> bytes option \<Rightarrow> error + bool"
  createHash_digest :: digest_value
  createVerify :: "string \<Rightarrow> error + 'v"
  update :: "'v \<Rightarrow> bytes option \<Rightarrow> error + 'v"
  verify :: "'v \<Rightarrow> string \<Rightarrow> signature_arg \<Rightarrow> error + bool"
  toString_base64 :: "bytes \<Rightarrow> string"

subsection \<open>Promises and the state of the process\<close>

text \<open>
  Modelled from the spec: the deferred result, which "may occur inline (already complete when
  returned) or later on a callback queue". \<^verbatim>\<open>SyncPromise\<close> of \<^verbatim>\<open>../util/sync-promise.js\<close> is
  not among the sources. \<open>SyncPromise_resolve\<close> and \<open>SyncPromise_reject\<close> are settled when
  they are returned; \<open>AsyncPromise\<close> is the promise chain of the engine, given by how it
  settles later.
\<close>

datatype promise =
    SyncPromise_resolve bool
  | SyncPromise_reject error
  | AsyncPromise "error + bool"

text \<open>
  \<open>verifyUsesString\<close> is the static field \<^verbatim>\<open>verifyUsesString_\<close>, \<^verbatim>\<open>null\<close> (\<open>None\<close>) until
  it is set by \<^verbatim>\<open>setVerifyUsesString_\<close> (a name cannot end in an underscore here).
  \<open>createHash_calls\<close> counts the calls of \<^verbatim>\<open>Crypto.createHash\<close> made so far; the code
  never reads it.
\<close>

record process =
  verifyUsesString :: "bool option"
  createHash_calls :: nat

definition process_start :: process where
  "process_start = \<lparr> verifyUsesString = None, createHash_calls = 0 \<rparr>"

text \<open>\<^verbatim>\<open>typeof hashResult === 'string'\<close>\<close>

fun typeof_is_string :: "digest_value \<Rightarrow> bool" where
  "typeof_is_string (DigestString _) = True"
| "typeof_is_string (DigestBuffer _) = False"

definition setVerifyUsesString :: "('k, 'v) environment \<Rightarrow> process \<Rightarrow> process" where
  "setVerifyUsesString env p =
     (let hashResult = createHash_digest env in
      p\<lparr> verifyUsesString := Some (typeof_is_string hashResult),
         createHash_calls := createHash_calls p + 1 \<rparr>)"

subsection \<open>The synchronous path\<close>

text \<open>\<^verbatim>\<open>signature.toString('binary')\<close>: one character per byte.\<close>

definition toString_binary :: "bytes \<Rightarrow> string" where
  "toString_binary b = map (\<lambda>x. char_of (unat x)) b"

text \<open>
  The loop \<^verbatim>\<open>for (var i = 0; i < keyBase64.length; i += 64)\<close>, which appends
  \<^verbatim>\<open>keyBase64.substr(i, 64) + "\n"\<close> to \<^verbatim>\<open>keyPem\<close>.
\<close>

function pem_lines :: "string \<Rightarrow> nat \<Rightarrow> string \<Rightarrow> string" where
  "pem_lines keyBase64 i keyPem =
     (if i < length keyBase64
      then pem_lines keyBase64 (i + 64) (keyPem @ take 64 (drop i keyBase64) @ [CHR 0x0A])
      else keyPem)"
  by pat_completeness auto
termination
  by (relation "measure (\<lambda>(keyBase64, i, keyPem). length keyBase64 - i)") auto

declare pem_lines.simps [simp del]

definition to_keyPem :: "string \<Rightarrow> string" where
  "to_keyPem keyBase64 =
     pem_lines keyBase64 0 (''-----BEGIN PUBLIC KEY-----'' @ [CHR 0x0A])
       @ ''-----END PUBLIC KEY-----''"

text \<open>
  The body of the \<^verbatim>\<open>try\<close> blocks of the RSA and ECDSA branches. The two differ in the name
  given to \<^verbatim>\<open>createVerify\<close> (\<^verbatim>\<open>'RSA-SHA256'\<close>, \<^verbatim>\<open>"sha256"\<close>), which is the parameter
  \<open>algorithm\<close>, and in the message of their \<^verbatim>\<open>catch\<close>. The result is what the body threw or
  the boolean it would resolve with, and the state of the process, which keeps the flag the
  body has set even when a later call raises.
\<close>

definition signatureBytes :: "process \<Rightarrow> bytes option \<Rightarrow> error + signature_arg" where
  "signatureBytes p signature =
     (if verifyUsesString p = Some True then
        (case signature of
           None \<Rightarrow> Inl (TypeError ''Cannot read property toString of null'')
         | Some b \<Rightarrow> Inr (SignatureString (toString_binary b)))
      else Inr (SignatureBuffer signature))"

definition try_verify ::
  "('k, 'v) environment \<Rightarrow> process \<Rightarrow> string \<Rightarrow> PublicKey \<Rightarrow> bytes option \<Rightarrow> bytes option
     \<Rightarrow> (error + bool) \<times> process" where
  "try_verify env p0 algorithm publicKey buffer signature =
     (let p1 = (if verifyUsesString p0 = None then setVerifyUsesString env p0 else p0);
          keyBase64 = toString_base64 env (getKeyDer publicKey);
          keyPem = to_keyPem keyBase64
      in
        case createVerify env algorithm of
          Inl ex \<Rightarrow> (Inl ex, p1)
        | Inr verifier \<Rightarrow>
            (case update env verifier buffer of
               Inl ex \<Rightarrow> (Inl ex, p1)
             | Inr verifier' \<Rightarrow>
                 (case signatureBytes p1 signature of
                    Inl ex \<Rightarrow> (Inl ex, p1)
                  | Inr sb \<Rightarrow> (verify env verifier' keyPem sb, p1))))"

text \<open>
  The frame around that body:
  \<^verbatim>\<open>try { ...; return SyncPromise.resolve(result); } catch (ex) { return SyncPromise.reject(new Error(message + ex)); }\<close>
\<close>

definition catch_reject :: "string \<Rightarrow> (error + bool) \<times> process \<Rightarrow> (error + promise) \<times> process" where
  "catch_reject message r =
     (case r of
        (Inl ex, p') \<Rightarrow> (Inr (SyncPromise_reject (Error (message @ error_toString ex))), p')
      | (Inr ok, p') \<Rightarrow> (Inr (SyncPromise_resolve ok), p'))"

subsection \<open>verifySignaturePromise\<close>

text \<open>Lines 56 to 60: a boolean in the place of the digest algorithm is the \<^verbatim>\<open>useSync\<close> flag.\<close>

definition shift_arguments :: "js_arg \<Rightarrow> js_arg \<Rightarrow> js_arg \<times> js_arg" where
  "shift_arguments digestAlgorithm useSync =
     (case digestAlgorithm of
        Boolean b \<Rightarrow> (Undefined, digestAlgorithm)
      | _ \<Rightarrow> (digestAlgorithm, useSync))"

text \<open>Lines 66 to 72: the key object, or what constructing one from the bytes raises.\<close>

definition to_PublicKey :: "('k, 'v) environment \<Rightarrow> key_arg \<Rightarrow> error + PublicKey" where
  "to_PublicKey env publicKey =
     (case publicKey of
        KeyObject k \<Rightarrow> Inr k
      | KeyBytes b \<Rightarrow> PublicKey_new env (buf b))"

text \<open>Lines 77 and 78.\<close>

definition default_digestAlgorithm :: "('k, 'v) environment \<Rightarrow> js_arg \<Rightarrow> js_arg" where
  "default_digestAlgorithm env digestAlgorithm =
     (if digestAlgorithm = Undefined then Number (DigestAlgorithm_SHA256 env)
      else digestAlgorithm)"

text \<open>
  The result is \<open>Inl\<close> for an exception thrown to the caller and \<open>Inr\<close> for a returned promise,
  with the state of the process after the call. On the engine's path \<^verbatim>\<open>importKey\<close> is given
  \<^verbatim>\<open>publicKey.getKeyDer().buf().buffer\<close> (line 86), which is \<open>getKeyDer_buffer\<close>.
\<close>

definition verifySignaturePromise ::
  "('k, 'v) environment \<Rightarrow> process \<Rightarrow> buffer_arg \<Rightarrow> buffer_arg \<Rightarrow> key_arg \<Rightarrow> js_arg \<Rightarrow> js_arg
     \<Rightarrow> (error + promise) \<times> process" where
  "verifySignaturePromise env p buffer0 signature0 publicKey0 digestAlgorithm0 useSync0 =
     (let (digestAlgorithm1, useSync) = shift_arguments digestAlgorithm0 useSync0;
          buffer = buf buffer0;
          signature = buf signature0
      in
        case to_PublicKey env publicKey0 of
          Inl ex \<Rightarrow>
            (Inr (SyncPromise_reject (Error
               (''verifySignature: Error decoding public key DER: '' @ error_toString ex))), p)
        | Inr publicKey \<Rightarrow>
            (let digestAlgorithm = default_digestAlgorithm env digestAlgorithm1 in
             if digestAlgorithm = Number (DigestAlgorithm_SHA256 env) then
               if getKeyType publicKey = RSA then
                 if UseSubtleCrypto env \<and> \<not> truthy useSync then
                   (Inr (AsyncPromise
                      (case subtle_importKey env (getKeyDer_buffer publicKey) of
                         Inl ex \<Rightarrow> Inl ex
                       | Inr key \<Rightarrow> subtle_verify env key signature buffer)), p)
                 else
                   catch_reject ''verifySignature: Error is RSA verify: ''
                     (try_verify env p ''RSA-SHA256'' publicKey buffer signature)
               else if getKeyType publicKey = ECDSA then
                 catch_reject ''verifySignature: Error is ECDSA verify: ''
                   (try_verify env p ''sha256'' publicKey buffer signature)
               else
                 (Inr (SyncPromise_reject (Error ''verifySignature: Invalid key type'')), p)
             else
               (Inr (SyncPromise_reject (Error ''verifySignature: Invalid digest algorithm'')), p)))"

subsection \<open>Callers and test doubles\<close>

text \<open>
  A caller that makes one call after the other, each on the state the one before left.
\<close>

type_synonym request = "buffer_arg \<times> buffer_arg \<times> key_arg \<times> js_arg \<times> js_arg"

fun run :: "('k, 'v) environment \<Rightarrow> process \<Rightarrow> request list \<Rightarrow> process" where
  "run env p [] = p"
| "run env p ((buffer, signature, publicKey, digestAlgorithm, useSync) # rest) =
     run env
       (snd (verifySignaturePromise env p buffer signature publicKey digestAlgorithm useSync))
       rest"

text \<open>
  The calls that reach one of the two \<^verbatim>\<open>try\<close> blocks: the key is a key object or parses to
  one, the digest algorithm is SHA-256 or omitted, and the key is an ECDSA key, or an RSA key
  when the engine is missing or the caller asked for a synchronous result.
\<close>

definition takes_synchronous_path ::
  "('k, 'v) environment \<Rightarrow> key_arg \<Rightarrow> js_arg \<Rightarrow> js_arg \<Rightarrow> bool" where
  "takes_synchronous_path env publicKey digestAlgorithm useSync =
     (case to_PublicKey env publicKey of
        Inl _ \<Rightarrow> False
      | Inr k \<Rightarrow>
          default_digestAlgorithm env (fst (shift_arguments digestAlgorithm useSync))
            = Number (DigestAlgorithm_SHA256 env)
          \<and> (getKeyType k = ECDSA
             \<or> (getKeyType k = RSA
                \<and> \<not> (UseSubtleCrypto env
                     \<and> \<not> truthy (snd (shift_arguments digestAlgorithm useSync))))))"

fun is_async :: "error + promise \<Rightarrow> bool" where
  "is_async (Inr (AsyncPromise _)) = True"
| "is_async _ = False"

fun is_settled_SyncPromise :: "error + promise \<Rightarrow> bool" where
  "is_settled_SyncPromise (Inr (SyncPromise_resolve _)) = True"
| "is_settled_SyncPromise (Inr (SyncPromise_reject _)) = True"
| "is_settled_SyncPromise _ = False"

text \<open>
  A stand-in for the environment: DER that starts with the byte \<open>0x30\<close> parses to an RSA
  key, the engine is present, and a signature is accepted when it equals the signed buffer.
  The verifier is the buffer it was fed.
\<close>

definition stub_environment :: "(bytes, bytes option) environment" where
  "stub_environment =
     \<lparr> DigestAlgorithm_SHA256 = 1,
       PublicKey_new = (\<lambda>der.
         case der of
           None \<Rightarrow> Inl (Error ''no key'')
         | Some d \<Rightarrow>
             if take 1 d = [0x30]
             then Inr \<lparr> getKeyType = RSA, getKeyDer = d, getKeyDer_buffer = d \<rparr>
             else Inl (Error ''not a SEQUENCE'')),
       UseSubtleCrypto = True,
       subtle_importKey = (\<lambda>der. Inr der),
       subtle_verify = (\<lambda>key signature buffer. Inr (signature = buffer)),
       createHash_digest = DigestBuffer [],
       createVerify = (\<lambda>algorithm. Inr None),
       update = (\<lambda>verifier buffer. Inr buffer),
       verify = (\<lambda>verifier keyPem sb.
         case sb of
           SignatureBuffer s \<Rightarrow> Inr (s = verifier)
         | SignatureString _ \<Rightarrow> Inl (TypeError ''signature must be a buffer'')),
       toString_base64 = map (\<lambda>x. CHR ''A'') \<rparr>"

definition rsa_key :: PublicKey where
  "rsa_key =
     \<lparr> getKeyType = RSA, getKeyDer = [0x30, 0x0D], getKeyDer_buffer = [0x30, 0x0D] \<rparr>"

definition ecdsa_key :: PublicKey where
  "ecdsa_key =
     \<lparr> getKeyType = ECDSA, getKeyDer = [0x30, 0x59], getKeyDer_buffer = [0x30, 0x59] \<rparr>"

definition aes_key :: PublicKey where
  "aes_key =
     \<lparr> getKeyType = OtherKeyType, getKeyDer = [0x30, 0x10],
       getKeyDer_buffer = [0x30, 0x10] \<rparr>"

text \<open>The same environment without the engine, whose synchronous verifier raises.\<close>

definition failing_environment :: "(bytes, bytes option) environment" where
  "failing_environment =
     stub_environment\<lparr> UseSubtleCrypto := False,
       verify := (\<lambda>verifier keyPem sb. Inl (Error ''unsupported key'')) \<rparr>"

text \<open>
  That environment with a \<^verbatim>\<open>createVerify\<close> that knows no algorithm, with an \<^verbatim>\<open>update\<close> that
  raises, and with a backend whose hash is a string, so that the signature is converted
  with \<^verbatim>\<open>toString('binary')\<close>.
\<close>

definition unknown_digest_environment :: "(bytes, bytes option) environment" where
  "unknown_digest_environment =
     failing_environment\<lparr> createVerify := (\<lambda>algorithm. Inl (Error ''Unknown message digest'')) \<rparr>"

definition update_raises_environment :: "(bytes, bytes option) environment" where
  "update_raises_environment =
     failing_environment\<lparr> update := (\<lambda>verifier buffer. Inl (TypeError ''data must be a Buffer'')) \<rparr>"

definition string_backend_environment :: "(bytes, bytes option) environment" where
  "string_backend_environment = failing_environment\<lparr> createHash_digest := DigestString [] \<rparr>"

text \<open>
  An engine that refuses key material which does not start with the byte \<open>0x30\<close>, and an RSA
  key whose DER bytes are a view into a larger \<^verbatim>\<open>ArrayBuffer\<close>.
\<close>

definition strict_engine_environment :: "(bytes, bytes option) environment" where
  "strict_engine_environment =
     stub_environment\<lparr> subtle_importKey := (\<lambda>spki.
       if take 1 spki = [0x30] then Inr spki else Inl (Error ''DataError'')) \<rparr>"

definition rsa_key_view :: PublicKey where
  "rsa_key_view =
     \<lparr> getKeyType = RSA, getKeyDer = [0x30, 0x0D],
       getKeyDer_buffer = [0x00, 0x30, 0x0D, 0xFF] \<rparr>"

text \<open>
  The states in which the backend has been asked at most once: either it has not been asked
  and the flag is unset, or it has been asked once and the flag holds its answer.
\<close>

definition probed_at_most_once :: "('k, 'v) environment \<Rightarrow> process \<Rightarrow> bool" where
  "probed_at_most_once env p =
     (createHash_calls p = 0 \<and> verifyUsesString p = None
      \<or> createHash_calls p = 1
          \<and> verifyUsesString p = Some (typeof_is_string (createHash_digest env)))"

section \<open>Properties of publisher-id.js\<close>

subsection \<open>The lookahead\<close>

lemma spy_peekDTag:
  "peekDTag (spy decoder) tag (s, calls) =
     (fst (peekDTag decoder tag s), (snd (peekDTag decoder tag s), calls @ [PeekDTag tag]))"
  by (simp add: spy_def split: prod.splits)

lemma spy_readBinaryDTagElement:
  "readBinaryDTagElement (spy decoder) tag (s, calls) =
     (fst (readBinaryDTagElement decoder tag s),
      (snd (readBinaryDTagElement decoder tag s), calls @ [ReadBinaryDTagElement tag]))"
  by (simp add: spy_def split: prod.splits)

lemma peekAndGetNextDTag_spy:
  "peekAndGetNextDTag dtags (spy decoder) (s, calls) =
     (case first_match decoder (probe_order dtags) s of
        (r, probed, s') \<Rightarrow> (r, (s', calls @ map PeekDTag probed)))"
  by (simp add: peekAndGetNextDTag_def probe_order_def spy_peekDTag Let_def
           split: prod.splits bool.splits)

lemma peekAndGetNextDTag_plain:
  "peekAndGetNextDTag dtags decoder s =
     (case first_match decoder (probe_order dtags) s of (r, probed, s') \<Rightarrow> (r, s'))"
  by (simp add: peekAndGetNextDTag_def probe_order_def Let_def split: prod.splits bool.splits)

lemma first_match_find:
  "list_all (\<lambda>t. snd (peekDTag decoder t s) = s) tags \<Longrightarrow>
   fst (first_match decoder tags s) =
     (case find (\<lambda>t. fst (peekDTag decoder t s)) tags of None \<Rightarrow> - 1 | Some t \<Rightarrow> t)"
  by (induction tags) (auto split: prod.splits bool.splits option.splits)

text \<open>
  C2. On every decoder and in every state of it, the calls \<open>peekAndGetNextDTag\<close> makes are
  lookaheads for the tags \<open>KEY, CERTIFICATE, ISSUER_KEY, ISSUER_CERTIFICATE\<close> in this order,
  up to and including the first that answers yes, whose tag is the result; when none answers
  yes all four are made and the result is \<open>-1\<close>. In particular, on a decoder whose lookahead
  leaves its state as it was, the result is the first tag of that order whose lookahead
  succeeds in the given state, whichever later tags would succeed too, and \<open>-1\<close> when there
  is none.
\<close>

theorem peekAndGetNextDTag_fixed_order:
  "peekAndGetNextDTag dtags (spy decoder) (s, calls) =
     (case first_match decoder (probe_order dtags) s of
        (r, probed, s') \<Rightarrow> (r, (s', calls @ map PeekDTag probed)))
   \<and> (list_all (\<lambda>t. snd (peekDTag decoder t s) = s) (probe_order dtags) \<longrightarrow>
        fst (peekAndGetNextDTag dtags decoder s) =
          (case find (\<lambda>t. fst (peekDTag decoder t s)) (probe_order dtags) of
             None \<Rightarrow> - 1
           | Some t \<Rightarrow> t))"
proof (intro conjI impI)
  show "peekAndGetNextDTag dtags (spy decoder) (s, calls) =
     (case first_match decoder (probe_order dtags) s of
        (r, probed, s') \<Rightarrow> (r, (s', calls @ map PeekDTag probed)))"
    by (rule peekAndGetNextDTag_spy)
next
  assume unmoved: "list_all (\<lambda>t. snd (peekDTag decoder t s) = s) (probe_order dtags)"
  have "fst (peekAndGetNextDTag dtags decoder s) = fst (first_match decoder (probe_order dtags) s)"
    by (simp add: peekAndGetNextDTag_plain split: prod.splits)
  also have "\<dots> = (case find (\<lambda>t. fst (peekDTag decoder t s)) (probe_order dtags) of
             None \<Rightarrow> - 1 | Some t \<Rightarrow> t)"
    using unmoved by (rule first_match_find)
  finally show "fst (peekAndGetNextDTag dtags decoder s) =
          (case find (\<lambda>t. fst (peekDTag decoder t s)) (probe_order dtags) of
             None \<Rightarrow> - 1 | Some t \<Rightarrow> t)" .
qed

text \<open>
  The crafted decoder in the state \<open>[62, 60]\<close> answers yes for \<open>CERTIFICATE\<close> and for
  \<open>ISSUER_CERTIFICATE\<close>: the result is \<open>CERTIFICATE\<close>, after two lookaheads. In the state
  \<open>[7]\<close> it answers no four times.
\<close>

theorem peekAndGetNextDTag_fixed_order_witness:
  "peekAndGetNextDTag example_dtags (spy crafted_decoder) ([62, 60], []) =
     (60, ([62, 60], [PeekDTag 59, PeekDTag 60]))
   \<and> list_all (\<lambda>t. snd (peekDTag crafted_decoder t [62, 60]) = [62, 60])
        (probe_order example_dtags)
   \<and> fst (peekAndGetNextDTag example_dtags crafted_decoder [62, 60]) = 60
   \<and> peekAndGetNextDTag example_dtags (spy crafted_decoder) ([7], []) =
     (- 1, ([7], [PeekDTag 59, PeekDTag 60, PeekDTag 61, PeekDTag 62]))"
  using peekAndGetNextDTag_fixed_order [of example_dtags crafted_decoder "[62, 60]" "[]"]
    peekAndGetNextDTag_fixed_order [of example_dtags crafted_decoder "[7]" "[]"]
  by (simp add: probe_order_def example_dtags_def crafted_decoder_def)

subsection \<open>Decoding when no tag matches\<close>

text \<open>
  C5. When the lookahead returns the sentinel \<open>-1\<close>, \<open>from_ndnb\<close> throws the error
  "Invalid publisher ID, got unexpected type". The calls it has made on the decoder by then
  are the lookaheads of \<open>peekAndGetNextDTag\<close> and nothing else: no
  \<open>ReadBinaryDTagElement\<close> is recorded, and the outcome is the same whatever the decoder's
  \<open>readBinaryDTagElement\<close> method is.
\<close>

theorem from_ndnb_no_match_fails_before_reading:
  assumes "fst (peekAndGetNextDTag dtags decoder s) = - 1"
  shows "from_ndnb dtags (spy decoder) this (s, calls) =
           (case first_match decoder (probe_order dtags) s of
              (r, probed, s') \<Rightarrow>
                (Inl (Error ''Invalid publisher ID, got unexpected type''),
                 this\<lparr>publisherType := Some (PublisherType_new dtags (- 1))\<rparr>,
                 (s', calls @ map PeekDTag probed)))
         \<and> from_ndnb dtags (decoder\<lparr>readBinaryDTagElement := rd\<rparr>) this s =
             (Inl (Error ''Invalid publisher ID, got unexpected type''),
              this\<lparr>publisherType := Some (PublisherType_new dtags (- 1))\<rparr>,
              snd (peekAndGetNextDTag dtags decoder s))"
proof
  from assms have r: "fst (first_match decoder (probe_order dtags) s) = - 1"
    by (simp add: peekAndGetNextDTag_plain split: prod.splits)
  then show "from_ndnb dtags (spy decoder) this (s, calls) =
           (case first_match decoder (probe_order dtags) s of
              (r, probed, s') \<Rightarrow>
                (Inl (Error ''Invalid publisher ID, got unexpected type''),
                 this\<lparr>publisherType := Some (PublisherType_new dtags (- 1))\<rparr>,
                 (s', calls @ map PeekDTag probed)))"
    by (auto simp: from_ndnb_def peekAndGetNextDTag_spy split: prod.splits)
next
  have same: "peekAndGetNextDTag dtags (decoder\<lparr>readBinaryDTagElement := rd\<rparr>) s
                = peekAndGetNextDTag dtags decoder s"
    by (simp add: peekAndGetNextDTag_def Let_def split: prod.splits)
  with assms show "from_ndnb dtags (decoder\<lparr>readBinaryDTagElement := rd\<rparr>) this s =
             (Inl (Error ''Invalid publisher ID, got unexpected type''),
              this\<lparr>publisherType := Some (PublisherType_new dtags (- 1))\<rparr>,
              snd (peekAndGetNextDTag dtags decoder s))"
    by (auto simp: from_ndnb_def split: prod.splits)
qed

text \<open>
  The first element of the input has the tag \<open>7\<close>, which is none of the four: four
  lookaheads, no read, and the input is left as it was.
\<close>

theorem from_ndnb_no_match_fails_before_reading_witness:
  "fst (peekAndGetNextDTag example_dtags element_decoder [(7, example_digest)]) = - 1
   \<and> from_ndnb example_dtags (spy element_decoder) PublisherID_new ([(7, example_digest)], []) =
       (Inl (Error ''Invalid publisher ID, got unexpected type''),
        PublisherID_new\<lparr>publisherType := Some (PublisherType_new example_dtags (- 1))\<rparr>,
        ([(7, example_digest)], [PeekDTag 59, PeekDTag 60, PeekDTag 61, PeekDTag 62]))"
proof -
  have h: "fst (peekAndGetNextDTag example_dtags element_decoder [(7, example_digest)]) = - 1"
    by (simp add: peekAndGetNextDTag_def example_dtags_def element_decoder_def)
  show ?thesis
    using h from_ndnb_no_match_fails_before_reading
            [OF h, of PublisherID_new "[]" "readBinaryDTagElement element_decoder"]
    by (simp add: probe_order_def example_dtags_def element_decoder_def)
qed

text \<open>
  C10. When the lookahead returns the sentinel \<open>-1\<close>, \<open>from_ndnb\<close> throws, and the object it
  was called on has by then a \<open>publisherType\<close> whose \<open>Tag\<close> is \<open>-1\<close>: the field is assigned
  before the test. Every other field is as before; an object whose \<open>publisherType\<close> was
  anything else is not the object it was.
\<close>

theorem from_ndnb_failure_overwrites_publisherType:
  assumes "fst (peekAndGetNextDTag dtags decoder s) = - 1"
  shows "fst (from_ndnb dtags decoder this s) = Inl (Error ''Invalid publisher ID, got unexpected type'')
         \<and> fst (snd (from_ndnb dtags decoder this s)) =
             this\<lparr>publisherType := Some (PublisherType_new dtags (- 1))\<rparr>
         \<and> (publisherType this \<noteq> Some (PublisherType_new dtags (- 1)) \<longrightarrow>
              fst (snd (from_ndnb dtags decoder this s)) \<noteq> this)"
proof -
  have after: "fst (snd (from_ndnb dtags decoder this s)) =
             this\<lparr>publisherType := Some (PublisherType_new dtags (- 1))\<rparr>"
    using assms by (auto simp: from_ndnb_def split: prod.splits)
  have "fst (from_ndnb dtags decoder this s) = Inl (Error ''Invalid publisher ID, got unexpected type'')"
    using assms by (auto simp: from_ndnb_def split: prod.splits)
  moreover have "publisherType this \<noteq> Some (PublisherType_new dtags (- 1)) \<longrightarrow>
              fst (snd (from_ndnb dtags decoder this s)) \<noteq> this"
  proof
    assume differs: "publisherType this \<noteq> Some (PublisherType_new dtags (- 1))"
    have "publisherType (fst (snd (from_ndnb dtags decoder this s))) = Some (PublisherType_new dtags (- 1))"
      by (simp add: after)
    with differs show "fst (snd (from_ndnb dtags decoder this s)) \<noteq> this"
      by auto
  qed
  ultimately show ?thesis using after by simp
qed

text \<open>
  An object that holds a decoded \<open>KEY\<close> identifier is asked to decode an element with the
  tag \<open>7\<close>: the call throws and the object's tag is \<open>-1\<close> afterwards.
\<close>

theorem from_ndnb_failure_overwrites_publisherType_witness:
  "fst (peekAndGetNextDTag example_dtags element_decoder [(7, example_digest)]) = - 1
   \<and> publisherType decoded_key_id = Some (PublisherType_new example_dtags 59)
   \<and> from_ndnb example_dtags element_decoder decoded_key_id [(7, example_digest)] =
       (Inl (Error ''Invalid publisher ID, got unexpected type''),
        decoded_key_id\<lparr>publisherType := Some (PublisherType_new example_dtags (- 1))\<rparr>,
        [(7, example_digest)])
   \<and> fst (snd (from_ndnb example_dtags element_decoder decoded_key_id [(7, example_digest)]))
       \<noteq> decoded_key_id"
proof -
  have h: "fst (peekAndGetNextDTag example_dtags element_decoder [(7, example_digest)]) = - 1"
    by (simp add: peekAndGetNextDTag_def example_dtags_def element_decoder_def)
  have d: "publisherType decoded_key_id \<noteq> Some (PublisherType_new example_dtags (- 1))"
    by (simp add: decoded_key_id_def PublisherType_new_def)
  have t: "publisherType decoded_key_id = Some (PublisherType_new example_dtags 59)"
    by (simp add: decoded_key_id_def)
  have whole: "from_ndnb example_dtags element_decoder decoded_key_id [(7, example_digest)] =
       (Inl (Error ''Invalid publisher ID, got unexpected type''),
        decoded_key_id\<lparr>publisherType := Some (PublisherType_new example_dtags (- 1))\<rparr>,
        [(7, example_digest)])"
    by (simp add: from_ndnb_def peekAndGetNextDTag_def example_dtags_def element_decoder_def)
  show ?thesis
    using h d t whole from_ndnb_failure_overwrites_publisherType [OF h, of decoded_key_id]
    by simp
qed

subsection \<open>Decoding a matching element\<close>

text \<open>
  When the lookahead returns a tag that is not negative and the decoder returns a payload
  for it, \<open>from_ndnb\<close> returns normally and the object holds that tag and that payload.
\<close>

theorem from_ndnb_reads_matched_element:
  assumes "peekAndGetNextDTag dtags decoder s = (t, s1)"
    and "0 \<le> t"
    and "readBinaryDTagElement decoder t s1 = (Inr (Some payload), s2)"
  shows "from_ndnb dtags decoder this s =
           (Inr (),
            this\<lparr>publisherType := Some (PublisherType_new dtags t), publisherID := Some payload\<rparr>,
            s2)"
  using assms by (simp add: from_ndnb_def)

theorem from_ndnb_reads_matched_element_witness:
  "peekAndGetNextDTag example_dtags element_decoder [(61, [1, 2, 3]), (7, [])] =
     (61, [(61, [1, 2, 3]), (7, [])])
   \<and> readBinaryDTagElement element_decoder 61 [(61, [1, 2, 3]), (7, [])] =
       (Inr (Some [1, 2, 3]), [(7, [])])
   \<and> from_ndnb example_dtags element_decoder PublisherID_new [(61, [1, 2, 3]), (7, [])] =
       (Inr (),
        PublisherID_new\<lparr>publisherType := Some (PublisherType_new example_dtags 61),
                        publisherID := Some [1, 2, 3]\<rparr>,
        [(7, [])])"
proof -
  have look: "peekAndGetNextDTag example_dtags element_decoder [(61, [1, 2, 3]), (7, [])] =
     (61, [(61, [1, 2, 3]), (7, [])])"
    by (simp add: peekAndGetNextDTag_def example_dtags_def element_decoder_def)
  have payload: "readBinaryDTagElement element_decoder 61 [(61, [1, 2, 3]), (7, [])] =
       (Inr (Some [1, 2, 3]), [(7, [])])"
    by (simp add: element_decoder_def)
  show ?thesis
    using look payload from_ndnb_reads_matched_element [OF look _ payload, of PublisherID_new]
    by simp
qed

subsection \<open>Encoding\<close>

lemma to_ndnb_raises_in_validate:
  "to_ndnb encoder this e = (Inl (ReferenceError ''id''), e)"
  by (simp add: to_ndnb_def validate_def)

text \<open>
  C1. Encoding a value with the tag \<open>KEY\<close> and a 32-byte digest throws the \<open>ReferenceError\<close>
  of \<open>validate\<close> and leaves the encoder empty, so there is no element to decode. Decoding by
  itself is sound: from the element \<open>(KEY, digest)\<close>, which encoding was to write,
  \<open>from_ndnb\<close> produces that value.
\<close>

theorem to_ndnb_valid_value_raises:
  "to_ndnb list_encoder decoded_key_id [] = (Inl (ReferenceError ''id''), [])
   \<and> from_ndnb example_dtags element_decoder PublisherID_new [(59, example_digest)] =
       (Inr (), decoded_key_id, [])"
  by (simp add: to_ndnb_raises_in_validate from_ndnb_def peekAndGetNextDTag_def
        example_dtags_def element_decoder_def decoded_key_id_def PublisherID_new_def)

text \<open>
  C3. Encoding a value whose two fields are \<^verbatim>\<open>null\<close> leaves the encoder as it was, and
  what it throws is the \<open>ReferenceError\<close> of \<open>validate\<close>, not an \<open>Error\<close> with whatever
  message: the error "field values missing" is never built.
\<close>

theorem to_ndnb_null_fields_raises_ReferenceError:
  "to_ndnb list_encoder PublisherID_new [] = (Inl (ReferenceError ''id''), [])
   \<and> fst (to_ndnb list_encoder PublisherID_new []) \<noteq> Inl (Error message)"
  by (simp add: to_ndnb_raises_in_validate)

section \<open>Properties of security/verification-helpers.js\<close>

subsection \<open>The frame, the branches and the state\<close>

lemma catch_reject_returns: "\<exists>pr. fst (catch_reject message r) = Inr pr"
  by (cases r) (auto simp: catch_reject_def split: sum.splits)

lemma catch_reject_settled: "is_settled_SyncPromise (fst (catch_reject message r))"
  by (cases r) (auto simp: catch_reject_def split: sum.splits)

lemma catch_reject_Inl:
  "fst r = Inl ex \<Longrightarrow>
   fst (catch_reject message r) = Inr (SyncPromise_reject (Error (message @ error_toString ex)))"
  by (cases r) (simp add: catch_reject_def)

lemma catch_reject_Inr:
  "fst r = Inr ok \<Longrightarrow> fst (catch_reject message r) = Inr (SyncPromise_resolve ok)"
  by (cases r) (simp add: catch_reject_def)

lemma snd_catch_reject: "snd (catch_reject message r) = snd r"
  by (cases r) (auto simp: catch_reject_def split: sum.splits)

lemma verifySignaturePromise_cases:
  "verifySignaturePromise env p buffer signature publicKey digestAlgorithm useSync =
     (case to_PublicKey env publicKey of
        Inl ex \<Rightarrow>
          (Inr (SyncPromise_reject (Error
             (''verifySignature: Error decoding public key DER: '' @ error_toString ex))), p)
      | Inr k \<Rightarrow>
          if default_digestAlgorithm env (fst (shift_arguments digestAlgorithm useSync))
               \<noteq> Number (DigestAlgorithm_SHA256 env)
          then (Inr (SyncPromise_reject (Error ''verifySignature: Invalid digest algorithm'')), p)
          else if getKeyType k = RSA then
            if UseSubtleCrypto env \<and> \<not> truthy (snd (shift_arguments digestAlgorithm useSync))
            then (Inr (AsyncPromise
                   (case subtle_importKey env (getKeyDer_buffer k) of
                      Inl ex \<Rightarrow> Inl ex
                    | Inr key \<Rightarrow> subtle_verify env key (buf signature) (buf buffer))), p)
            else catch_reject ''verifySignature: Error is RSA verify: ''
                   (try_verify env p ''RSA-SHA256'' k (buf buffer) (buf signature))
          else if getKeyType k = ECDSA then
            catch_reject ''verifySignature: Error is ECDSA verify: ''
              (try_verify env p ''sha256'' k (buf buffer) (buf signature))
          else (Inr (SyncPromise_reject (Error ''verifySignature: Invalid key type'')), p))"
  by (simp add: verifySignaturePromise_def Let_def split: sum.splits prod.splits)

lemma snd_try_verify:
  "snd (try_verify env p algorithm k buffer signature) =
     (if verifyUsesString p = None then setVerifyUsesString env p else p)"
  by (simp add: try_verify_def Let_def split: sum.splits)

lemma snd_verifySignaturePromise:
  "snd (verifySignaturePromise env p buffer signature publicKey digestAlgorithm useSync) =
     (if verifyUsesString p = None \<and> takes_synchronous_path env publicKey digestAlgorithm useSync
      then setVerifyUsesString env p else p)"
  by (cases "getKeyType (projr (to_PublicKey env publicKey))")
     (auto simp: verifySignaturePromise_cases takes_synchronous_path_def snd_catch_reject
        snd_try_verify split: sum.splits)

lemma fst_try_verify_flag:
  "verifyUsesString p = None \<or> verifyUsesString p = Some (typeof_is_string (createHash_digest env)) \<Longrightarrow>
   fst (try_verify env p algorithm k buffer signature) =
   fst (try_verify env (p\<lparr>verifyUsesString := Some (typeof_is_string (createHash_digest env))\<rparr>)
          algorithm k buffer signature)"
  by (auto simp: try_verify_def signatureBytes_def setVerifyUsesString_def Let_def split: sum.splits)

lemma fst_catch_reject_cong:
  "fst r = fst r' \<Longrightarrow> fst (catch_reject message r) = fst (catch_reject message r')"
  by (cases r; cases r') (auto simp: catch_reject_def split: sum.splits)

lemma fst_verifySignaturePromise_flag:
  assumes "verifyUsesString p = None \<or> verifyUsesString p = Some (typeof_is_string (createHash_digest env))"
  shows "fst (verifySignaturePromise env p buffer signature publicKey digestAlgorithm useSync) =
         fst (verifySignaturePromise env
                (p\<lparr>verifyUsesString := Some (typeof_is_string (createHash_digest env))\<rparr>)
                buffer signature publicKey digestAlgorithm useSync)"
  using fst_try_verify_flag [OF assms]
  by (auto simp: verifySignaturePromise_cases intro: fst_catch_reject_cong split: sum.splits)

lemma probed_at_most_once_step:
  "probed_at_most_once env p \<Longrightarrow>
   probed_at_most_once env
     (snd (verifySignaturePromise env p buffer signature publicKey digestAlgorithm useSync))"
  by (auto simp: snd_verifySignaturePromise probed_at_most_once_def setVerifyUsesString_def)

lemma probed_at_most_once_run:
  "probed_at_most_once env p \<Longrightarrow> probed_at_most_once env (run env p requests)"
proof (induction requests arbitrary: p)
  case Nil
  then show ?case by simp
next
  case (Cons r requests)
  obtain buffer signature publicKey digestAlgorithm useSync
    where r: "r = (buffer, signature, publicKey, digestAlgorithm, useSync)"
    by (cases r) auto
  from Cons.prems have "probed_at_most_once env
     (snd (verifySignaturePromise env p buffer signature publicKey digestAlgorithm useSync))"
    by (rule probed_at_most_once_step)
  then show ?case unfolding r by (simp add: Cons.IH)
qed

lemma verifySignaturePromise_returns:
  "\<exists>pr. fst (verifySignaturePromise env p buffer signature publicKey digestAlgorithm useSync) = Inr pr"
  by (simp add: verifySignaturePromise_cases catch_reject_returns split: sum.splits)

lemma fst_try_verify_primitives:
  "createVerify env algorithm = Inr v \<Longrightarrow> update env v buffer = Inr v' \<Longrightarrow>
   signatureBytes (snd (try_verify env p algorithm k buffer signature)) signature = Inr sb \<Longrightarrow>
   fst (try_verify env p algorithm k buffer signature) =
     verify env v' (to_keyPem (toString_base64 env (getKeyDer k))) sb"
  by (simp add: snd_try_verify) (simp add: try_verify_def Let_def)

lemmas ninth_conjunct = conjunct2 [THEN conjunct2, THEN conjunct2, THEN conjunct2,
  THEN conjunct2, THEN conjunct2, THEN conjunct2, THEN conjunct2]

lemmas stub_evaluation =
  verifySignaturePromise_def try_verify_def catch_reject_def signatureBytes_def
  setVerifyUsesString_def to_PublicKey_def shift_arguments_def default_digestAlgorithm_def
  stub_environment_def process_start_def rsa_key_def ecdsa_key_def
  aes_key_def name_and_message_def Let_def

subsection \<open>The PEM text\<close>

text \<open>
  The loop puts every 64 characters of the base64 text, and what is left over, on a line of
  its own between the header and the footer; with no text there is no line.
\<close>

lemma to_keyPem_wraps_at_64:
  "to_keyPem (replicate 64 CHR ''A'' @ replicate 6 CHR ''B'') =
     ''-----BEGIN PUBLIC KEY-----'' @ [CHR 0x0A]
     @ replicate 64 CHR ''A'' @ [CHR 0x0A]
     @ replicate 6 CHR ''B'' @ [CHR 0x0A]
     @ ''-----END PUBLIC KEY-----''"
  by (simp add: to_keyPem_def pem_lines.simps)

lemma to_keyPem_empty:
  "to_keyPem [] = ''-----BEGIN PUBLIC KEY-----'' @ [CHR 0x0A] @ ''-----END PUBLIC KEY-----''"
  by (simp add: to_keyPem_def pem_lines.simps)

subsection \<open>Failures are rejected promises\<close>

text \<open>
  C4. For every environment, state and arguments, \<open>verifySignaturePromise\<close> returns a promise
  and throws nothing. A key that does not parse gives a promise rejected with "Error decoding
  public key DER"; a digest algorithm other than SHA-256 one rejected with "Invalid digest
  algorithm"; a key type other than RSA and ECDSA one rejected with "Invalid key type"; on the
  engine's path the promise settles as the engine does; on the synchronous paths whatever the
  \<^verbatim>\<open>try\<close> block raises gives a rejected promise that carries it, and a boolean it computes,
  \<open>False\<close> included, gives a promise resolved with that boolean. The \<^verbatim>\<open>try\<close> block returns
  what the primitive \<open>verify\<close> returns once the verifier is made, fed and given the signature.
  Primitive by primitive, on either synchronous path: an exception raised by
  \<^verbatim>\<open>createVerify\<close>, by \<^verbatim>\<open>update\<close>, by the conversion of the signature or by \<^verbatim>\<open>verify\<close> gives
  the promise rejected with the message of that path followed by the exception, and a boolean
  returned by \<^verbatim>\<open>verify\<close> gives the promise resolved with it; the state afterwards is the state
  with the flag set.
\<close>

theorem verifySignaturePromise_never_throws:
  "(\<exists>pr. fst (verifySignaturePromise env p buffer signature publicKey digestAlgorithm useSync) = Inr pr)
   \<and> (to_PublicKey env publicKey = Inl ex \<longrightarrow>
        verifySignaturePromise env p buffer signature publicKey digestAlgorithm useSync =
          (Inr (SyncPromise_reject (Error
             (''verifySignature: Error decoding public key DER: '' @ error_toString ex))), p))
   \<and> (to_PublicKey env publicKey = Inr k
        \<and> default_digestAlgorithm env (fst (shift_arguments digestAlgorithm useSync))
            \<noteq> Number (DigestAlgorithm_SHA256 env) \<longrightarrow>
        verifySignaturePromise env p buffer signature publicKey digestAlgorithm useSync =
          (Inr (SyncPromise_reject (Error ''verifySignature: Invalid digest algorithm'')), p))
   \<and> (to_PublicKey env publicKey = Inr k
        \<and> default_digestAlgorithm env (fst (shift_arguments digestAlgorithm useSync))
            = Number (DigestAlgorithm_SHA256 env)
        \<and> getKeyType k = OtherKeyType \<longrightarrow>
        verifySignaturePromise env p buffer signature publicKey digestAlgorithm useSync =
          (Inr (SyncPromise_reject (Error ''verifySignature: Invalid key type'')), p))
   \<and> (to_PublicKey env publicKey = Inr k
        \<and> default_digestAlgorithm env (fst (shift_arguments digestAlgorithm useSync))
            = Number (DigestAlgorithm_SHA256 env)
        \<and> getKeyType k = RSA
        \<and> UseSubtleCrypto env \<and> \<not> truthy (snd (shift_arguments digestAlgorithm useSync)) \<longrightarrow>
        verifySignaturePromise env p buffer signature publicKey digestAlgorithm useSync =
          (Inr (AsyncPromise
             (case subtle_importKey env (getKeyDer_buffer k) of
                Inl ex \<Rightarrow> Inl ex
              | Inr key \<Rightarrow> subtle_verify env key (buf signature) (buf buffer))), p))
   \<and> (to_PublicKey env publicKey = Inr k
        \<and> default_digestAlgorithm env (fst (shift_arguments digestAlgorithm useSync))
            = Number (DigestAlgorithm_SHA256 env)
        \<and> getKeyType k = RSA
        \<and> \<not> (UseSubtleCrypto env \<and> \<not> truthy (snd (shift_arguments digestAlgorithm useSync))) \<longrightarrow>
        (fst (try_verify env p ''RSA-SHA256'' k (buf buffer) (buf signature)) = Inl thrown \<longrightarrow>
           fst (verifySignaturePromise env p buffer signature publicKey digestAlgorithm useSync) =
             Inr (SyncPromise_reject (Error
               (''verifySignature: Error is RSA verify: '' @ error_toString thrown))))
        \<and> (fst (try_verify env p ''RSA-SHA256'' k (buf buffer) (buf signature)) = Inr ok \<longrightarrow>
           fst (verifySignaturePromise env p buffer signature publicKey digestAlgorithm useSync) =
             Inr (SyncPromise_resolve ok)))
   \<and> (to_PublicKey env publicKey = Inr k
        \<and> default_digestAlgorithm env (fst (shift_arguments digestAlgorithm useSync))
            = Number (DigestAlgorithm_SHA256 env)
        \<and> getKeyType k = ECDSA \<longrightarrow>
        (fst (try_verify env p ''sha256'' k (buf buffer) (buf signature)) = Inl thrown \<longrightarrow>
           fst (verifySignaturePromise env p buffer signature publicKey digestAlgorithm useSync) =
             Inr (SyncPromise_reject (Error
               (''verifySignature: Error is ECDSA verify: '' @ error_toString thrown))))
        \<and> (fst (try_verify env p ''sha256'' k (buf buffer) (buf signature)) = Inr ok \<longrightarrow>
           fst (verifySignaturePromise env p buffer signature publicKey digestAlgorithm useSync) =
             Inr (SyncPromise_resolve ok)))
   \<and> (createVerify env algorithm = Inr v \<and> update env v (buf buffer) = Inr v'
        \<and> signatureBytes (snd (try_verify env p algorithm k (buf buffer) (buf signature)))
             (buf signature) = Inr sb \<longrightarrow>
        fst (try_verify env p algorithm k (buf buffer) (buf signature)) =
          verify env v' (to_keyPem (toString_base64 env (getKeyDer k))) sb)
   \<and> (to_PublicKey env publicKey = Inr k
        \<and> default_digestAlgorithm env (fst (shift_arguments digestAlgorithm useSync))
            = Number (DigestAlgorithm_SHA256 env)
        \<and> (getKeyType k = RSA
             \<and> \<not> (UseSubtleCrypto env \<and> \<not> truthy (snd (shift_arguments digestAlgorithm useSync)))
             \<and> algorithm = ''RSA-SHA256'' \<and> message = ''verifySignature: Error is RSA verify: ''
            \<or> getKeyType k = ECDSA
             \<and> algorithm = ''sha256'' \<and> message = ''verifySignature: Error is ECDSA verify: '')
        \<and> p1 = (if verifyUsesString p = None then setVerifyUsesString env p else p)
        \<and> keyPem = to_keyPem (toString_base64 env (getKeyDer k)) \<longrightarrow>
        (createVerify env algorithm = Inl thrown \<longrightarrow>
           verifySignaturePromise env p buffer signature publicKey digestAlgorithm useSync =
             (Inr (SyncPromise_reject (Error (message @ error_toString thrown))), p1))
        \<and> (createVerify env algorithm = Inr v \<and> update env v (buf buffer) = Inl thrown \<longrightarrow>
           verifySignaturePromise env p buffer signature publicKey digestAlgorithm useSync =
             (Inr (SyncPromise_reject (Error (message @ error_toString thrown))), p1))
        \<and> (createVerify env algorithm = Inr v \<and> update env v (buf buffer) = Inr v'
            \<and> signatureBytes p1 (buf signature) = Inl thrown \<longrightarrow>
           verifySignaturePromise env p buffer signature publicKey digestAlgorithm useSync =
             (Inr (SyncPromise_reject (Error (message @ error_toString thrown))), p1))
        \<and> (createVerify env algorithm = Inr v \<and> update env v (buf buffer) = Inr v'
            \<and> signatureBytes p1 (buf signature) = Inr sb
            \<and> verify env v' keyPem sb = Inl thrown \<longrightarrow>
           verifySignaturePromise env p buffer signature publicKey digestAlgorithm useSync =
             (Inr (SyncPromise_reject (Error (message @ error_toString thrown))), p1))
        \<and> (createVerify env algorithm = Inr v \<and> update env v (buf buffer) = Inr v'
            \<and> signatureBytes p1 (buf signature) = Inr sb
            \<and> verify env v' keyPem sb = Inr ok \<longrightarrow>
           verifySignaturePromise env p buffer signature publicKey digestAlgorithm useSync =
             (Inr (SyncPromise_resolve ok), p1)))"
  apply (intro conjI)
  subgoal by (rule verifySignaturePromise_returns)
  subgoal
    by (intro conjI impI; (elim conjE)?)
       (simp_all add: verifySignaturePromise_cases catch_reject_Inl catch_reject_Inr
          fst_try_verify_primitives)
  subgoal
    by (intro conjI impI; (elim conjE)?)
       (simp_all add: verifySignaturePromise_cases catch_reject_Inl catch_reject_Inr
          fst_try_verify_primitives)
  subgoal
    by (intro conjI impI; (elim conjE)?)
       (simp_all add: verifySignaturePromise_cases catch_reject_Inl catch_reject_Inr
          fst_try_verify_primitives)
  subgoal
    by (intro conjI impI; (elim conjE)?)
       (simp_all add: verifySignaturePromise_cases catch_reject_Inl catch_reject_Inr
          fst_try_verify_primitives)
  subgoal
    by (intro conjI impI; (elim conjE)?)
       (simp_all add: verifySignaturePromise_cases catch_reject_Inl catch_reject_Inr
          fst_try_verify_primitives)
  subgoal
    by (intro conjI impI; (elim conjE)?)
       (simp_all add: verifySignaturePromise_cases catch_reject_Inl catch_reject_Inr
          fst_try_verify_primitives)
  subgoal
    by (intro conjI impI; (elim conjE)?)
       (simp_all add: verifySignaturePromise_cases catch_reject_Inl catch_reject_Inr
          fst_try_verify_primitives)
  subgoal
    by (auto simp: verifySignaturePromise_cases catch_reject_def try_verify_def Let_def)
  done

text \<open>
  Bytes that do not parse reject; a signature that differs from the signed buffer resolves
  with \<open>False\<close>; a \<^verbatim>\<open>verify\<close>, a \<^verbatim>\<open>createVerify\<close> and an \<^verbatim>\<open>update\<close> that raise, and a
  \<^verbatim>\<open>null\<close> signature that cannot be converted to a string, each reject with what was raised;
  an engine that refuses the key material gives a promise that settles rejected.
\<close>

theorem verifySignaturePromise_never_throws_witness:
  "to_PublicKey stub_environment (KeyBytes (Buffer [1, 2])) = Inl (Error ''not a SEQUENCE'')
   \<and> verifySignaturePromise stub_environment process_start (Buffer [1, 2]) (Buffer [1, 2])
        (KeyBytes (Buffer [1, 2])) Undefined Undefined =
      (Inr (SyncPromise_reject (Error
         ''verifySignature: Error decoding public key DER: Error: not a SEQUENCE'')), process_start)
   \<and> to_PublicKey stub_environment (KeyBytes (Buffer [0x30, 2])) =
        Inr \<lparr> getKeyType = RSA, getKeyDer = [0x30, 2], getKeyDer_buffer = [0x30, 2] \<rparr>
   \<and> fst (try_verify stub_environment process_start ''RSA-SHA256''
             \<lparr> getKeyType = RSA, getKeyDer = [0x30, 2], getKeyDer_buffer = [0x30, 2] \<rparr> (Some [1, 2]) (Some [1, 3])) = Inr False
   \<and> fst (verifySignaturePromise stub_environment process_start (Buffer [1, 2]) (Buffer [1, 3])
        (KeyBytes (Buffer [0x30, 2])) (Boolean True) Undefined) = Inr (SyncPromise_resolve False)
   \<and> fst (try_verify failing_environment process_start ''sha256'' ecdsa_key
             (Some [1, 2]) (Some [1, 2])) = Inl (Error ''unsupported key'')
   \<and> fst (verifySignaturePromise failing_environment process_start (Buffer [1, 2]) (Buffer [1, 2])
        (KeyObject ecdsa_key) Undefined Undefined) =
      Inr (SyncPromise_reject (Error
        ''verifySignature: Error is ECDSA verify: Error: unsupported key''))
   \<and> createVerify unknown_digest_environment ''sha256'' = Inl (Error ''Unknown message digest'')
   \<and> verifySignaturePromise unknown_digest_environment process_start (Buffer [1, 2]) (Buffer [1, 2])
        (KeyObject ecdsa_key) Undefined Undefined =
      (Inr (SyncPromise_reject (Error
         ''verifySignature: Error is ECDSA verify: Error: Unknown message digest'')),
       \<lparr> verifyUsesString = Some False, createHash_calls = 1 \<rparr>)
   \<and> update update_raises_environment None (buf (Buffer [1, 2]))
        = Inl (TypeError ''data must be a Buffer'')
   \<and> verifySignaturePromise update_raises_environment process_start (Buffer [1, 2]) (Buffer [1, 2])
        (KeyObject rsa_key) Undefined Undefined =
      (Inr (SyncPromise_reject (Error
         ''verifySignature: Error is RSA verify: TypeError: data must be a Buffer'')),
       \<lparr> verifyUsesString = Some False, createHash_calls = 1 \<rparr>)
   \<and> signatureBytes (setVerifyUsesString string_backend_environment process_start)
        (buf (Blob None)) = Inl (TypeError ''Cannot read property toString of null'')
   \<and> verifySignaturePromise string_backend_environment process_start (Buffer [1, 2]) (Blob None)
        (KeyObject ecdsa_key) Undefined Undefined =
      (Inr (SyncPromise_reject (Error
         ''verifySignature: Error is ECDSA verify: TypeError: Cannot read property toString of null'')),
       \<lparr> verifyUsesString = Some True, createHash_calls = 1 \<rparr>)
   \<and> subtle_importKey strict_engine_environment (getKeyDer_buffer rsa_key_view)
        = Inl (Error ''DataError'')
   \<and> verifySignaturePromise strict_engine_environment process_start (Buffer [1, 2]) (Buffer [1, 2])
        (KeyObject rsa_key_view) Undefined Undefined =
      (Inr (AsyncPromise (Inl (Error ''DataError''))), process_start)"
proof -
  let ?k = "\<lparr> getKeyType = RSA, getKeyDer = [0x30, 2], getKeyDer_buffer = [0x30, 2] \<rparr>"
  have unparsable:
    "to_PublicKey stub_environment (KeyBytes (Buffer [1, 2])) = Inl (Error ''not a SEQUENCE'')"
    by (simp add: to_PublicKey_def stub_environment_def)
  have parsed: "to_PublicKey stub_environment (KeyBytes (Buffer [0x30, 2])) = Inr ?k"
    by (simp add: to_PublicKey_def stub_environment_def)
  have wrong: "fst (try_verify stub_environment process_start ''RSA-SHA256'' ?k
                 (Some [1, 2]) (Some [1, 3])) = Inr False"
    by (simp add: try_verify_def signatureBytes_def setVerifyUsesString_def
          stub_environment_def process_start_def Let_def)
  have raised: "fst (try_verify failing_environment process_start ''sha256'' ecdsa_key
             (Some [1, 2]) (Some [1, 2])) = Inl (Error ''unsupported key'')"
    by (simp add: try_verify_def signatureBytes_def setVerifyUsesString_def
          failing_environment_def stub_environment_def process_start_def Let_def)
  have rsa_sync: "to_PublicKey stub_environment (KeyBytes (Buffer [0x30, 2])) = Inr ?k
      \<and> default_digestAlgorithm stub_environment (fst (shift_arguments (Boolean True) Undefined))
          = Number (DigestAlgorithm_SHA256 stub_environment)
      \<and> getKeyType ?k = RSA
      \<and> \<not> (UseSubtleCrypto stub_environment
            \<and> \<not> truthy (snd (shift_arguments (Boolean True) Undefined)))"
    using parsed by (simp add: default_digestAlgorithm_def shift_arguments_def)
  have ecdsa: "to_PublicKey failing_environment (KeyObject ecdsa_key) = Inr ecdsa_key
      \<and> default_digestAlgorithm failing_environment (fst (shift_arguments Undefined Undefined))
          = Number (DigestAlgorithm_SHA256 failing_environment)
      \<and> getKeyType ecdsa_key = ECDSA"
    by (simp add: to_PublicKey_def default_digestAlgorithm_def shift_arguments_def ecdsa_key_def)
  note decode_error =
    verifySignaturePromise_never_throws [where env = stub_environment and p = process_start
      and buffer = "Buffer [1, 2]" and signature = "Buffer [1, 2]"
      and publicKey = "KeyBytes (Buffer [1, 2])" and digestAlgorithm = Undefined
      and useSync = Undefined and ex = "Error ''not a SEQUENCE''",
      THEN conjunct2, THEN conjunct1, THEN mp, OF unparsable]
  note resolves_false =
    verifySignaturePromise_never_throws [where env = stub_environment and p = process_start
      and buffer = "Buffer [1, 2]" and signature = "Buffer [1, 3]"
      and publicKey = "KeyBytes (Buffer [0x30, 2])" and digestAlgorithm = "Boolean True"
      and useSync = Undefined and k = ?k and ok = False,
      THEN conjunct2, THEN conjunct2, THEN conjunct2, THEN conjunct2, THEN conjunct2,
      THEN conjunct1, THEN mp, OF rsa_sync, THEN conjunct2, THEN mp]
  note rejects =
    verifySignaturePromise_never_throws [where env = failing_environment and p = process_start
      and buffer = "Buffer [1, 2]" and signature = "Buffer [1, 2]"
      and publicKey = "KeyObject ecdsa_key" and digestAlgorithm = Undefined
      and useSync = Undefined and k = ecdsa_key and thrown = "Error ''unsupported key''",
      THEN conjunct2, THEN conjunct2, THEN conjunct2, THEN conjunct2, THEN conjunct2,
      THEN conjunct2, THEN conjunct1, THEN mp, OF ecdsa, THEN conjunct1, THEN mp]
  have false_resolved:
    "fst (verifySignaturePromise stub_environment process_start (Buffer [1, 2]) (Buffer [1, 3])
        (KeyBytes (Buffer [0x30, 2])) (Boolean True) Undefined) = Inr (SyncPromise_resolve False)"
    using wrong by (intro resolves_false) simp
  have verify_raises: "fst (verifySignaturePromise failing_environment process_start (Buffer [1, 2])
        (Buffer [1, 2]) (KeyObject ecdsa_key) Undefined Undefined) =
      Inr (SyncPromise_reject (Error
        ''verifySignature: Error is ECDSA verify: Error: unsupported key''))"
    using raised rejects by (simp add: name_and_message_def)
  have sync_ecdsa:
    "to_PublicKey env (KeyObject ecdsa_key) = Inr ecdsa_key
      \<and> default_digestAlgorithm env (fst (shift_arguments Undefined Undefined))
          = Number (DigestAlgorithm_SHA256 env)
      \<and> (getKeyType ecdsa_key = RSA
           \<and> \<not> (UseSubtleCrypto env \<and> \<not> truthy (snd (shift_arguments Undefined Undefined)))
           \<and> ''sha256'' = ''RSA-SHA256''
           \<and> ''verifySignature: Error is ECDSA verify: '' = ''verifySignature: Error is RSA verify: ''
          \<or> getKeyType ecdsa_key = ECDSA
           \<and> ''sha256'' = ''sha256''
           \<and> ''verifySignature: Error is ECDSA verify: '' = ''verifySignature: Error is ECDSA verify: '')
      \<and> setVerifyUsesString env process_start =
          (if verifyUsesString process_start = None then setVerifyUsesString env process_start
           else process_start)
      \<and> to_keyPem (toString_base64 env (getKeyDer ecdsa_key))
          = to_keyPem (toString_base64 env (getKeyDer ecdsa_key))"
    for env :: "(bytes, bytes option) environment"
    by (simp add: to_PublicKey_def default_digestAlgorithm_def shift_arguments_def ecdsa_key_def
          process_start_def)
  have sync_rsa:
    "to_PublicKey update_raises_environment (KeyObject rsa_key) = Inr rsa_key
      \<and> default_digestAlgorithm update_raises_environment (fst (shift_arguments Undefined Undefined))
          = Number (DigestAlgorithm_SHA256 update_raises_environment)
      \<and> (getKeyType rsa_key = RSA
           \<and> \<not> (UseSubtleCrypto update_raises_environment
                 \<and> \<not> truthy (snd (shift_arguments Undefined Undefined)))
           \<and> ''RSA-SHA256'' = ''RSA-SHA256''
           \<and> ''verifySignature: Error is RSA verify: '' = ''verifySignature: Error is RSA verify: ''
          \<or> getKeyType rsa_key = ECDSA
           \<and> ''RSA-SHA256'' = ''sha256''
           \<and> ''verifySignature: Error is RSA verify: '' = ''verifySignature: Error is ECDSA verify: '')
      \<and> setVerifyUsesString update_raises_environment process_start =
          (if verifyUsesString process_start = None
           then setVerifyUsesString update_raises_environment process_start else process_start)
      \<and> to_keyPem (toString_base64 update_raises_environment (getKeyDer rsa_key))
          = to_keyPem (toString_base64 update_raises_environment (getKeyDer rsa_key))"
    by (simp add: to_PublicKey_def default_digestAlgorithm_def shift_arguments_def rsa_key_def
          process_start_def update_raises_environment_def failing_environment_def
          stub_environment_def)
  have no_verifier: "createVerify unknown_digest_environment ''sha256''
                       = Inl (Error ''Unknown message digest'')"
    by (simp add: unknown_digest_environment_def)
  have no_update: "createVerify update_raises_environment ''RSA-SHA256'' = Inr None
      \<and> update update_raises_environment None (buf (Buffer [1, 2]))
          = Inl (TypeError ''data must be a Buffer'')"
    by (simp add: update_raises_environment_def failing_environment_def stub_environment_def)
  have no_string: "createVerify string_backend_environment ''sha256'' = Inr None
      \<and> update string_backend_environment None (buf (Buffer [1, 2])) = Inr (Some [1, 2])
      \<and> signatureBytes (setVerifyUsesString string_backend_environment process_start)
           (buf (Blob None)) = Inl (TypeError ''Cannot read property toString of null'')"
    by (simp add: string_backend_environment_def failing_environment_def stub_environment_def
          signatureBytes_def setVerifyUsesString_def)
  have states: "setVerifyUsesString unknown_digest_environment process_start
                  = \<lparr> verifyUsesString = Some False, createHash_calls = 1 \<rparr>"
    "setVerifyUsesString update_raises_environment process_start
                  = \<lparr> verifyUsesString = Some False, createHash_calls = 1 \<rparr>"
    "setVerifyUsesString string_backend_environment process_start
                  = \<lparr> verifyUsesString = Some True, createHash_calls = 1 \<rparr>"
    by (simp_all add: setVerifyUsesString_def process_start_def unknown_digest_environment_def
          update_raises_environment_def string_backend_environment_def failing_environment_def
          stub_environment_def)
  have engine: "to_PublicKey strict_engine_environment (KeyObject rsa_key_view) = Inr rsa_key_view
      \<and> default_digestAlgorithm strict_engine_environment (fst (shift_arguments Undefined Undefined))
          = Number (DigestAlgorithm_SHA256 strict_engine_environment)
      \<and> getKeyType rsa_key_view = RSA
      \<and> UseSubtleCrypto strict_engine_environment
      \<and> \<not> truthy (snd (shift_arguments Undefined Undefined))"
    by (simp add: to_PublicKey_def default_digestAlgorithm_def shift_arguments_def
          rsa_key_view_def strict_engine_environment_def stub_environment_def)
  have refused: "subtle_importKey strict_engine_environment (getKeyDer_buffer rsa_key_view)
        = Inl (Error ''DataError'')"
    by (simp add: strict_engine_environment_def rsa_key_view_def)
  note createVerify_raises =
    verifySignaturePromise_never_throws [where env = unknown_digest_environment
      and p = process_start and buffer = "Buffer [1, 2]" and signature = "Buffer [1, 2]"
      and publicKey = "KeyObject ecdsa_key" and digestAlgorithm = Undefined
      and useSync = Undefined and k = ecdsa_key and algorithm = "''sha256''"
      and message = "''verifySignature: Error is ECDSA verify: ''"
      and ?p1.0 = "setVerifyUsesString unknown_digest_environment process_start"
      and keyPem = "to_keyPem (toString_base64 unknown_digest_environment (getKeyDer ecdsa_key))"
      and thrown = "Error ''Unknown message digest''",
      THEN ninth_conjunct, THEN mp, OF sync_ecdsa, THEN conjunct1, THEN mp, OF no_verifier]
  note update_raises =
    verifySignaturePromise_never_throws [where env = update_raises_environment
      and p = process_start and buffer = "Buffer [1, 2]" and signature = "Buffer [1, 2]"
      and publicKey = "KeyObject rsa_key" and digestAlgorithm = Undefined
      and useSync = Undefined and k = rsa_key and algorithm = "''RSA-SHA256''"
      and message = "''verifySignature: Error is RSA verify: ''"
      and ?p1.0 = "setVerifyUsesString update_raises_environment process_start"
      and keyPem = "to_keyPem (toString_base64 update_raises_environment (getKeyDer rsa_key))"
      and thrown = "TypeError ''data must be a Buffer''" and v = None,
      THEN ninth_conjunct, THEN mp, OF sync_rsa, THEN conjunct2, THEN conjunct1, THEN mp,
      OF no_update]
  note toString_raises =
    verifySignaturePromise_never_throws [where env = string_backend_environment
      and p = process_start and buffer = "Buffer [1, 2]" and signature = "Blob None"
      and publicKey = "KeyObject ecdsa_key" and digestAlgorithm = Undefined
      and useSync = Undefined and k = ecdsa_key and algorithm = "''sha256''"
      and message = "''verifySignature: Error is ECDSA verify: ''"
      and ?p1.0 = "setVerifyUsesString string_backend_environment process_start"
      and keyPem = "to_keyPem (toString_base64 string_backend_environment (getKeyDer ecdsa_key))"
      and thrown = "TypeError ''Cannot read property toString of null''"
      and v = None and v' = "Some [1, 2]",
      THEN ninth_conjunct, THEN mp, OF sync_ecdsa, THEN conjunct2, THEN conjunct2,
      THEN conjunct1, THEN mp, OF no_string]
  note engine_rejects =
    verifySignaturePromise_never_throws [where env = strict_engine_environment
      and p = process_start and buffer = "Buffer [1, 2]" and signature = "Buffer [1, 2]"
      and publicKey = "KeyObject rsa_key_view" and digestAlgorithm = Undefined
      and useSync = Undefined and k = rsa_key_view,
      THEN conjunct2, THEN conjunct2, THEN conjunct2, THEN conjunct2, THEN conjunct1,
      THEN mp, OF engine]
  show ?thesis
    using false_resolved verify_raises
      unparsable parsed wrong raised decode_error no_verifier no_update no_string refused
      createVerify_raises update_raises toString_raises engine_rejects
    by (simp add: name_and_message_def states)
qed

subsection \<open>The digest algorithm\<close>

text \<open>
  C6. For a key of any type, given as a key object or as bytes that parse, and for every
  buffer, signature, state and \<^verbatim>\<open>useSync\<close>: a digest algorithm that is a number other than
  SHA-256 gives the promise rejected with "Invalid digest algorithm", and the state is left
  as it was. Neither the key type nor the environment has a part in the result.
\<close>

theorem verifySignaturePromise_other_digest_rejected:
  assumes "to_PublicKey env publicKey = Inr k"
    and "n \<noteq> DigestAlgorithm_SHA256 env"
  shows "verifySignaturePromise env p buffer signature publicKey (Number n) useSync =
           (Inr (SyncPromise_reject (Error ''verifySignature: Invalid digest algorithm'')), p)"
  using assms
  by (simp add: verifySignaturePromise_def shift_arguments_def default_digestAlgorithm_def Let_def
           split: sum.splits)

text \<open>An RSA key, an ECDSA key and a key of another type, each with the digest algorithm 2.\<close>

theorem verifySignaturePromise_other_digest_rejected_witness:
  "to_PublicKey stub_environment (KeyObject rsa_key) = Inr rsa_key
   \<and> to_PublicKey stub_environment (KeyObject ecdsa_key) = Inr ecdsa_key
   \<and> to_PublicKey stub_environment (KeyObject aes_key) = Inr aes_key
   \<and> (2::int) \<noteq> DigestAlgorithm_SHA256 stub_environment
   \<and> verifySignaturePromise stub_environment process_start (Buffer [1, 2]) (Buffer [1, 2])
        (KeyObject rsa_key) (Number 2) Undefined =
      (Inr (SyncPromise_reject (Error ''verifySignature: Invalid digest algorithm'')), process_start)
   \<and> verifySignaturePromise stub_environment process_start (Buffer [1, 2]) (Buffer [1, 2])
        (KeyObject ecdsa_key) (Number 2) (Boolean True) =
      (Inr (SyncPromise_reject (Error ''verifySignature: Invalid digest algorithm'')), process_start)
   \<and> verifySignaturePromise stub_environment process_start (Buffer [1, 2]) (Buffer [1, 2])
        (KeyObject aes_key) (Number 2) Undefined =
      (Inr (SyncPromise_reject (Error ''verifySignature: Invalid digest algorithm'')), process_start)"
proof -
  have k1: "to_PublicKey stub_environment (KeyObject rsa_key) = Inr rsa_key"
    and k2: "to_PublicKey stub_environment (KeyObject ecdsa_key) = Inr ecdsa_key"
    and k3: "to_PublicKey stub_environment (KeyObject aes_key) = Inr aes_key"
    by (simp_all add: to_PublicKey_def)
  have d: "(2::int) \<noteq> DigestAlgorithm_SHA256 stub_environment"
    by (simp add: stub_environment_def)
  show ?thesis
    using k1 k2 k3 d
      verifySignaturePromise_other_digest_rejected [OF k1 d]
      verifySignaturePromise_other_digest_rejected [OF k2 d]
      verifySignaturePromise_other_digest_rejected [OF k3 d]
    by simp
qed

text \<open>
  C9. A boolean \<open>b\<close> in the place of the digest algorithm gives what SHA-256 as the digest
  algorithm and \<open>b\<close> as \<^verbatim>\<open>useSync\<close> give, whatever stands in the place of \<^verbatim>\<open>useSync\<close>
  (nothing, in a call with four arguments).
\<close>

theorem verifySignaturePromise_boolean_digestAlgorithm:
  "verifySignaturePromise env p buffer signature publicKey (Boolean b) useSync =
   verifySignaturePromise env p buffer signature publicKey
     (Number (DigestAlgorithm_SHA256 env)) (Boolean b)"
  by (simp add: verifySignaturePromise_def shift_arguments_def default_digestAlgorithm_def Let_def
           split: sum.splits)

text \<open>
  With \<^verbatim>\<open>true\<close> the RSA key is verified synchronously though the engine is present; with
  \<^verbatim>\<open>false\<close> the engine is used.
\<close>

theorem verifySignaturePromise_boolean_digestAlgorithm_witness:
  "verifySignaturePromise stub_environment process_start (Buffer [1, 2]) (Buffer [1, 2])
     (KeyObject rsa_key) (Boolean True) Undefined =
   verifySignaturePromise stub_environment process_start (Buffer [1, 2]) (Buffer [1, 2])
     (KeyObject rsa_key) (Number 1) (Boolean True)
   \<and> verifySignaturePromise stub_environment process_start (Buffer [1, 2]) (Buffer [1, 2])
     (KeyObject rsa_key) (Boolean True) Undefined =
     (Inr (SyncPromise_resolve True), \<lparr> verifyUsesString = Some False, createHash_calls = 1 \<rparr>)
   \<and> verifySignaturePromise stub_environment process_start (Buffer [1, 2]) (Buffer [1, 2])
     (KeyObject rsa_key) (Boolean False) Undefined = (Inr (AsyncPromise (Inr True)), process_start)"
  using verifySignaturePromise_boolean_digestAlgorithm [of stub_environment process_start
      "Buffer [1, 2]" "Buffer [1, 2]" "KeyObject rsa_key" True Undefined]
  by (simp add: stub_evaluation)

subsection \<open>The key type\<close>

text \<open>
  C7, as stated, fails when the digest algorithm is not SHA-256: with the digest algorithm 2,
  an RSA key with the engine present and no request for a synchronous result is rejected with
  "Invalid digest algorithm" and nothing is delegated; an ECDSA key does not reach its
  synchronous path; a key of another type is not rejected with "Invalid key type".
\<close>

theorem verifySignaturePromise_decision_tree_counterexample:
  "getKeyType rsa_key = RSA \<and> UseSubtleCrypto stub_environment \<and> \<not> truthy Undefined
   \<and> verifySignaturePromise stub_environment process_start (Buffer [1, 2]) (Buffer [1, 2])
        (KeyObject rsa_key) (Number 2) Undefined =
      (Inr (SyncPromise_reject (Error ''verifySignature: Invalid digest algorithm'')), process_start)
   \<and> \<not> is_async (fst (verifySignaturePromise stub_environment process_start (Buffer [1, 2])
        (Buffer [1, 2]) (KeyObject rsa_key) (Number 2) Undefined))
   \<and> getKeyType ecdsa_key = ECDSA
   \<and> verifySignaturePromise stub_environment process_start (Buffer [1, 2]) (Buffer [1, 2])
        (KeyObject ecdsa_key) (Number 2) Undefined =
      (Inr (SyncPromise_reject (Error ''verifySignature: Invalid digest algorithm'')), process_start)
   \<and> getKeyType aes_key = OtherKeyType
   \<and> verifySignaturePromise stub_environment process_start (Buffer [1, 2]) (Buffer [1, 2])
        (KeyObject aes_key) (Number 2) Undefined =
      (Inr (SyncPromise_reject (Error ''verifySignature: Invalid digest algorithm'')), process_start)"
  by (simp add: verifySignaturePromise_cases to_PublicKey_def shift_arguments_def
        default_digestAlgorithm_def stub_environment_def rsa_key_def ecdsa_key_def aes_key_def)

text \<open>
  C7, amended. When the key is a key object or parses to one and the digest algorithm is
  SHA-256 (given, omitted, or displaced by a boolean): the result is the engine's promise if
  and only if the key type is RSA, the engine is present and \<^verbatim>\<open>useSync\<close> is not truthy, and
  then it settles as \<^verbatim>\<open>importKey\<close>, given the \<^verbatim>\<open>ArrayBuffer\<close> behind the key's DER bytes,
  followed by \<^verbatim>\<open>verify\<close> does; for an ECDSA key the result
  is that of the synchronous \<^verbatim>\<open>try\<close> block with the verifier \<^verbatim>\<open>"sha256"\<close>, a promise settled
  when it is returned, whatever the engine and \<^verbatim>\<open>useSync\<close> are; for any other key type it
  is the promise rejected with "Invalid key type".
\<close>

theorem verifySignaturePromise_decision_tree:
  assumes key: "to_PublicKey env publicKey = Inr k"
    and sha: "default_digestAlgorithm env (fst (shift_arguments digestAlgorithm useSync))
                = Number (DigestAlgorithm_SHA256 env)"
  shows "(is_async (fst (verifySignaturePromise env p buffer signature publicKey digestAlgorithm useSync))
            \<longleftrightarrow> getKeyType k = RSA \<and> UseSubtleCrypto env
                  \<and> \<not> truthy (snd (shift_arguments digestAlgorithm useSync)))
         \<and> (is_async (fst (verifySignaturePromise env p buffer signature publicKey digestAlgorithm useSync))
            \<longrightarrow> verifySignaturePromise env p buffer signature publicKey digestAlgorithm useSync =
                  (Inr (AsyncPromise
                     (case subtle_importKey env (getKeyDer_buffer k) of
                        Inl ex \<Rightarrow> Inl ex
                      | Inr key \<Rightarrow> subtle_verify env key (buf signature) (buf buffer))), p))
         \<and> (getKeyType k = ECDSA
            \<longrightarrow> verifySignaturePromise env p buffer signature publicKey digestAlgorithm useSync =
                  catch_reject ''verifySignature: Error is ECDSA verify: ''
                    (try_verify env p ''sha256'' k (buf buffer) (buf signature))
                \<and> is_settled_SyncPromise
                    (fst (verifySignaturePromise env p buffer signature publicKey digestAlgorithm useSync)))
         \<and> (getKeyType k = OtherKeyType
            \<longrightarrow> verifySignaturePromise env p buffer signature publicKey digestAlgorithm useSync =
                  (Inr (SyncPromise_reject (Error ''verifySignature: Invalid key type'')), p))"
proof -
  let ?V = "verifySignaturePromise env p buffer signature publicKey digestAlgorithm useSync"
  let ?rsa = "catch_reject ''verifySignature: Error is RSA verify: ''
                (try_verify env p ''RSA-SHA256'' k (buf buffer) (buf signature))"
  let ?ecdsa = "catch_reject ''verifySignature: Error is ECDSA verify: ''
                (try_verify env p ''sha256'' k (buf buffer) (buf signature))"
  have not_async: "\<not> is_async (fst (catch_reject message r))" for message r
    using catch_reject_settled [of message r]
    by (cases "fst (catch_reject message r)" rule: is_async.cases) auto
  show ?thesis
  proof (cases "getKeyType k")
    case RSA
    show ?thesis
    proof (cases "UseSubtleCrypto env \<and> \<not> truthy (snd (shift_arguments digestAlgorithm useSync))")
      case True
      with RSA key sha show ?thesis by (simp add: verifySignaturePromise_cases)
    next
      case False
      with RSA key sha have "?V = ?rsa" by (auto simp: verifySignaturePromise_cases)
      with RSA False not_async [of "''verifySignature: Error is RSA verify: ''"] show ?thesis
        by auto
    qed
  next
    case ECDSA
    with key sha have "?V = ?ecdsa" by (simp add: verifySignaturePromise_cases)
    with ECDSA not_async [of "''verifySignature: Error is ECDSA verify: ''"]
      catch_reject_settled [of "''verifySignature: Error is ECDSA verify: ''"]
    show ?thesis by auto
  next
    case OtherKeyType
    with key sha show ?thesis by (simp add: verifySignaturePromise_cases)
  qed
qed

text \<open>
  With SHA-256 omitted and the engine present: an RSA key goes to the engine, the same key
  with \<^verbatim>\<open>useSync\<close> set is verified synchronously, an ECDSA key is verified synchronously,
  and a key of another type is rejected.
\<close>

theorem verifySignaturePromise_decision_tree_witness:
  "to_PublicKey stub_environment (KeyObject rsa_key) = Inr rsa_key
   \<and> default_digestAlgorithm stub_environment (fst (shift_arguments Undefined Undefined))
       = Number (DigestAlgorithm_SHA256 stub_environment)
   \<and> verifySignaturePromise stub_environment process_start (Buffer [1, 2]) (Buffer [1, 2])
        (KeyObject rsa_key) Undefined Undefined = (Inr (AsyncPromise (Inr True)), process_start)
   \<and> verifySignaturePromise stub_environment process_start (Buffer [1, 2]) (Buffer [1, 2])
        (KeyObject rsa_key) Undefined (Boolean True) =
      (Inr (SyncPromise_resolve True), \<lparr> verifyUsesString = Some False, createHash_calls = 1 \<rparr>)
   \<and> to_PublicKey stub_environment (KeyObject ecdsa_key) = Inr ecdsa_key
   \<and> getKeyType ecdsa_key = ECDSA
   \<and> verifySignaturePromise stub_environment process_start (Buffer [1, 2]) (Buffer [1, 2])
        (KeyObject ecdsa_key) Undefined Undefined =
      (Inr (SyncPromise_resolve True), \<lparr> verifyUsesString = Some False, createHash_calls = 1 \<rparr>)
   \<and> to_PublicKey stub_environment (KeyObject aes_key) = Inr aes_key
   \<and> getKeyType aes_key = OtherKeyType
   \<and> verifySignaturePromise stub_environment process_start (Buffer [1, 2]) (Buffer [1, 2])
        (KeyObject aes_key) Undefined Undefined =
      (Inr (SyncPromise_reject (Error ''verifySignature: Invalid key type'')), process_start)"
proof -
  have keys: "to_PublicKey stub_environment (KeyObject rsa_key) = Inr rsa_key"
    "to_PublicKey stub_environment (KeyObject ecdsa_key) = Inr ecdsa_key"
    "to_PublicKey stub_environment (KeyObject aes_key) = Inr aes_key"
    by (simp_all add: to_PublicKey_def)
  have sha: "default_digestAlgorithm stub_environment (fst (shift_arguments Undefined u))
       = Number (DigestAlgorithm_SHA256 stub_environment)" for u
    by (simp add: default_digestAlgorithm_def shift_arguments_def)
  show ?thesis
    using keys sha [of Undefined]
      verifySignaturePromise_decision_tree [OF keys(1) sha, where useSync = Undefined
        and p = process_start and buffer = "Buffer [1, 2]" and signature = "Buffer [1, 2]"]
      verifySignaturePromise_decision_tree [OF keys(1) sha, where useSync = "Boolean True"
        and p = process_start and buffer = "Buffer [1, 2]" and signature = "Buffer [1, 2]"]
      verifySignaturePromise_decision_tree [OF keys(2) sha, where useSync = Undefined
        and p = process_start and buffer = "Buffer [1, 2]" and signature = "Buffer [1, 2]"]
      verifySignaturePromise_decision_tree [OF keys(3) sha, where useSync = Undefined
        and p = process_start and buffer = "Buffer [1, 2]" and signature = "Buffer [1, 2]"]
    by (simp add: stub_evaluation)
qed

subsection \<open>The flag of the process\<close>

text \<open>
  C8. The flag starts unset. After any sequence of calls from the start the backend has been
  asked at most once, and the flag is unset if it has not been asked and its answer if it
  has. A call that reaches a \<^verbatim>\<open>try\<close> block with the flag unset asks the backend and sets the
  flag; a call made with the flag set, and a call that reaches no \<^verbatim>\<open>try\<close> block, leaves
  the state as it was. Asking again gives the same flag. In every such state a call returns
  what it returns when the flag holds the backend's answer.
\<close>

theorem verifyUsesString_probed_once:
  "verifyUsesString process_start = None
   \<and> probed_at_most_once env (run env process_start requests)
   \<and> createHash_calls (run env process_start requests) \<le> 1
   \<and> verifyUsesString (run env process_start requests) =
       (if createHash_calls (run env process_start requests) = 0 then None
        else Some (typeof_is_string (createHash_digest env)))
   \<and> (verifyUsesString p = None \<and> takes_synchronous_path env publicKey digestAlgorithm useSync
        \<longrightarrow> snd (verifySignaturePromise env p buffer signature publicKey digestAlgorithm useSync)
              = setVerifyUsesString env p)
   \<and> (verifyUsesString p = Some b
        \<longrightarrow> snd (verifySignaturePromise env p buffer signature publicKey digestAlgorithm useSync) = p)
   \<and> (\<not> takes_synchronous_path env publicKey digestAlgorithm useSync
        \<longrightarrow> snd (verifySignaturePromise env p buffer signature publicKey digestAlgorithm useSync) = p)
   \<and> verifyUsesString (setVerifyUsesString env p) = Some (typeof_is_string (createHash_digest env))
   \<and> verifyUsesString (setVerifyUsesString env (setVerifyUsesString env p))
       = verifyUsesString (setVerifyUsesString env p)
   \<and> (probed_at_most_once env p
        \<longrightarrow> fst (verifySignaturePromise env p buffer signature publicKey digestAlgorithm useSync) =
            fst (verifySignaturePromise env
                   (p\<lparr>verifyUsesString := Some (typeof_is_string (createHash_digest env))\<rparr>)
                   buffer signature publicKey digestAlgorithm useSync))"
proof -
  have start: "probed_at_most_once env process_start"
    by (simp add: probed_at_most_once_def process_start_def)
  then have reach: "probed_at_most_once env (run env process_start requests)"
    by (rule probed_at_most_once_run)
  have once: "createHash_calls (run env process_start requests) \<le> 1"
    using reach by (auto simp: probed_at_most_once_def)
  have flag: "verifyUsesString (run env process_start requests) =
       (if createHash_calls (run env process_start requests) = 0 then None
        else Some (typeof_is_string (createHash_digest env)))"
    using reach by (auto simp: probed_at_most_once_def)
  have observed: "probed_at_most_once env p
        \<longrightarrow> fst (verifySignaturePromise env p buffer signature publicKey digestAlgorithm useSync) =
            fst (verifySignaturePromise env
                   (p\<lparr>verifyUsesString := Some (typeof_is_string (createHash_digest env))\<rparr>)
                   buffer signature publicKey digestAlgorithm useSync)"
    using fst_verifySignaturePromise_flag [of p env]
    by (auto simp: probed_at_most_once_def)
  have again: "verifyUsesString (setVerifyUsesString env p) = Some (typeof_is_string (createHash_digest env))"
    "verifyUsesString (setVerifyUsesString env (setVerifyUsesString env p))
       = verifyUsesString (setVerifyUsesString env p)"
    by (simp_all add: setVerifyUsesString_def)
  show ?thesis
    using reach once flag observed again
    by (simp add: snd_verifySignaturePromise process_start_def)
qed

text \<open>
  Four calls: the first uses the engine and asks nothing, the second asks the backend, the
  third and the fourth find the flag set.
\<close>

theorem verifyUsesString_probed_once_witness:
  "run stub_environment process_start
     [(Buffer [1, 2], Buffer [1, 2], KeyObject rsa_key, Undefined, Undefined),
      (Buffer [1, 2], Buffer [1, 2], KeyObject rsa_key, Boolean True, Undefined),
      (Buffer [1, 2], Buffer [9], KeyObject ecdsa_key, Number 1, Undefined),
      (Buffer [1, 2], Buffer [1, 2], KeyObject rsa_key, Number 1, Boolean True)]
     = \<lparr> verifyUsesString = Some False, createHash_calls = 1 \<rparr>
   \<and> verifyUsesString process_start = None
   \<and> takes_synchronous_path stub_environment (KeyObject rsa_key) (Boolean True) Undefined
   \<and> snd (verifySignaturePromise stub_environment process_start (Buffer [1, 2]) (Buffer [1, 2])
            (KeyObject rsa_key) (Boolean True) Undefined)
       = \<lparr> verifyUsesString = Some False, createHash_calls = 1 \<rparr>
   \<and> snd (verifySignaturePromise stub_environment
            \<lparr> verifyUsesString = Some False, createHash_calls = 1 \<rparr> (Buffer [1, 2]) (Buffer [9])
            (KeyObject ecdsa_key) (Number 1) Undefined)
       = \<lparr> verifyUsesString = Some False, createHash_calls = 1 \<rparr>
   \<and> \<not> takes_synchronous_path stub_environment (KeyObject rsa_key) Undefined Undefined
   \<and> probed_at_most_once stub_environment process_start"
proof -
  have sync: "takes_synchronous_path stub_environment (KeyObject rsa_key) (Boolean True) Undefined"
    and async: "\<not> takes_synchronous_path stub_environment (KeyObject rsa_key) Undefined Undefined"
    by (simp_all add: takes_synchronous_path_def to_PublicKey_def shift_arguments_def
          default_digestAlgorithm_def stub_environment_def rsa_key_def)
  have start: "verifyUsesString process_start = None"
    "probed_at_most_once stub_environment process_start"
    by (simp_all add: process_start_def probed_at_most_once_def)
  have set: "setVerifyUsesString stub_environment process_start
              = \<lparr> verifyUsesString = Some False, createHash_calls = 1 \<rparr>"
    by (simp add: setVerifyUsesString_def process_start_def stub_environment_def)
  have run: "run stub_environment process_start
     [(Buffer [1, 2], Buffer [1, 2], KeyObject rsa_key, Undefined, Undefined),
      (Buffer [1, 2], Buffer [1, 2], KeyObject rsa_key, Boolean True, Undefined),
      (Buffer [1, 2], Buffer [9], KeyObject ecdsa_key, Number 1, Undefined),
      (Buffer [1, 2], Buffer [1, 2], KeyObject rsa_key, Number 1, Boolean True)]
     = \<lparr> verifyUsesString = Some False, createHash_calls = 1 \<rparr>"
    by (simp add: verifySignaturePromise_def try_verify_def catch_reject_def signatureBytes_def
          setVerifyUsesString_def to_PublicKey_def shift_arguments_def default_digestAlgorithm_def
          stub_environment_def process_start_def rsa_key_def ecdsa_key_def Let_def)
  show ?thesis
    using sync async start set run
      verifyUsesString_probed_once [of stub_environment "[]" process_start "KeyObject rsa_key"
        "Boolean True" Undefined "Buffer [1, 2]" "Buffer [1, 2]" False]
      verifyUsesString_probed_once [of stub_environment "[]"
        "\<lparr> verifyUsesString = Some False, createHash_calls = 1 \<rparr>" "KeyObject ecdsa_key"
        "Number 1" Undefined "Buffer [1, 2]" "Buffer [9]" False]
    by simp
qed

end
